theory Spec2Isabelle
  imports Complex_Main "HOL-Library.Sublist"
begin

section \<open>JavaScript strings\<close>

text \<open>
  A JavaScript string is modelled as a \<^typ>\<open>string\<close>, one \<^typ>\<open>char\<close> per code unit.
  The operations below are the ones the extension calls: \<^verbatim>\<open>substring\<close>,
  \<^verbatim>\<open>indexOf\<close>, \<^verbatim>\<open>lastIndexOf\<close>, \<^verbatim>\<open>trim\<close>, \<^verbatim>\<open>startsWith\<close> (which is
  \<^const>\<open>prefix\<close>) and a search for a literal inside a string.
\<close>

definition DQUOTE :: char where
  "DQUOTE = CHR 0x22"

definition SQUOTE :: char where
  "SQUOTE = CHR 0x27"

definition BACKSLASH :: char where
  "BACKSLASH = CHR 0x5C"

definition NEWLINE :: char where
  "NEWLINE = CHR 0x0A"

text \<open>
  \<^verbatim>\<open>s.substring(a, b)\<close>: both indices are clamped to \<open>[0, length]\<close> and swapped when
  \<open>a > b\<close>. \<^verbatim>\<open>s.substring(a)\<close> runs to the end of the string.
\<close>

definition clampIndex :: "string \<Rightarrow> int \<Rightarrow> nat" where
  "clampIndex s i = min (nat (max 0 i)) (length s)"

definition substring :: "string \<Rightarrow> int \<Rightarrow> int \<Rightarrow> string" where
  "substring s a b =
     (let a' = clampIndex s a; b' = clampIndex s b;
          lo = min a' b'; hi = max a' b'
      in take (hi - lo) (drop lo s))"

definition substringFrom :: "string \<Rightarrow> int \<Rightarrow> string" where
  "substringFrom s a = drop (clampIndex s a) s"

text \<open>
  \<^verbatim>\<open>s.indexOf(pat)\<close> as a scan from the left: the first index at which \<open>pat\<close> starts,
  \<open>None\<close> where JavaScript answers \<open>-1\<close>.
\<close>

fun firstIndexOf :: "string \<Rightarrow> string \<Rightarrow> nat option" where
  "firstIndexOf pat [] = (if pat = [] then Some 0 else None)"
| "firstIndexOf pat (c # cs) =
     (if prefix pat (c # cs) then Some 0
      else map_option Suc (firstIndexOf pat cs))"

text \<open>
  \<^verbatim>\<open>s.lastIndexOf(pat)\<close>: the greatest index at which \<open>pat\<close> starts, \<open>-1\<close> when there
  is none.
\<close>

definition lastIndexOf :: "string \<Rightarrow> string \<Rightarrow> int" where
  "lastIndexOf s pat =
     (case filter (\<lambda>i. prefix pat (drop i s)) (rev [0..<Suc (length s)]) of
        [] \<Rightarrow> - 1
      | i # _ \<Rightarrow> int i)"

text \<open>
  \<^verbatim>\<open>s.trim()\<close> drops white space at both ends. Of the code units below 256 these are
  tab, line feed, vertical tab, form feed, carriage return, space and the no-break
  space.
\<close>

definition isWhiteSpace :: "char \<Rightarrow> bool" where
  "isWhiteSpace c =
     (c = CHR 0x09 \<or> c = CHR 0x0A \<or> c = CHR 0x0B \<or> c = CHR 0x0C \<or> c = CHR 0x0D
      \<or> c = CHR 0x20 \<or> c = CHR 0xA0)"

definition trim :: "string \<Rightarrow> string" where
  "trim s = rev (dropWhile isWhiteSpace (rev (dropWhile isWhiteSpace s)))"

section \<open>The completion client (src/api/index.ts)\<close>

subsection \<open>Extraction of the completion from the response\<close>

text \<open>
  \<^verbatim>\<open>responseText.match(/<COMPLETION>([\s\S]*?)<\/COMPLETION>/)\<close> and the choice of
  group 1, or the empty string when there is no match.

  The pattern is a literal, a lazily repeated any-character class in a group, and a
  literal. A backtracking matcher tries start positions from the left; at a start
  position where the opening literal matches, the lazy group first tries to stop
  at once and takes one more character each time the closing literal does not
  follow. \<open>lazyGroup\<close> is the group together with the closing literal, \<open>matchAt\<close> the
  whole pattern anchored at the head of its argument, \<open>regexSearch\<close> the search over
  the start positions.
\<close>

definition OPEN_TAG :: string where
  "OPEN_TAG = ''<COMPLETION>''"

definition CLOSE_TAG :: string where
  "CLOSE_TAG = ''</COMPLETION>''"

fun lazyGroup :: "string \<Rightarrow> string option" where
  "lazyGroup [] = (if prefix CLOSE_TAG [] then Some [] else None)"
| "lazyGroup (c # cs) =
     (if prefix CLOSE_TAG (c # cs) then Some []
      else map_option ((#) c) (lazyGroup cs))"

definition matchAt :: "string \<Rightarrow> string option" where
  "matchAt s =
     (if prefix OPEN_TAG s then lazyGroup (drop (length OPEN_TAG) s) else None)"

fun regexSearch :: "string \<Rightarrow> string option" where
  "regexSearch [] = matchAt []"
| "regexSearch (c # cs) =
     (case matchAt (c # cs) of
        Some g \<Rightarrow> Some g
      | None \<Rightarrow> regexSearch cs)"

definition extractCompletion :: "string \<Rightarrow> string" where
  "extractCompletion responseText =
     (case regexSearch responseText of Some g \<Rightarrow> g | None \<Rightarrow> [])"

text \<open>
  The extraction as the specification words it: find the first opening tag, then
  the first closing tag after it, and take what stands between the two; without
  such a pair the result is the empty string.
\<close>

definition betweenFirstTags :: "string \<Rightarrow> string option" where
  "betweenFirstTags s =
     (case firstIndexOf OPEN_TAG s of
        None \<Rightarrow> None
      | Some i \<Rightarrow>
          (let rest = drop (i + length OPEN_TAG) s
           in case firstIndexOf CLOSE_TAG rest of
                None \<Rightarrow> None
              | Some j \<Rightarrow> Some (take j rest)))"

definition extractSpec :: "string \<Rightarrow> string" where
  "extractSpec s = (case betweenFirstTags s of Some g \<Rightarrow> g | None \<Rightarrow> [])"

subsection \<open>Configuration, handlers and the backend stream\<close>

text \<open>
  \<^verbatim>\<open>ApiConfiguration\<close> is the provider selection together with the handler options
  (\<^verbatim>\<open>const { apiProvider, ...options } = configuration\<close>). Of the options only the
  two that this file sets are kept.
\<close>

datatype ApiProvider =
    anthropic | openrouter | bedrock | vertex | openai
  | ollama | lmstudio | gemini | openai_native | deepseek

record ApiHandlerOptions =
  apiModelId :: "string option"
  apiKey :: "string option"

record ApiConfiguration = ApiHandlerOptions +
  apiProvider :: "ApiProvider option"

datatype ApiHandler =
    AnthropicHandler ApiHandlerOptions
  | OpenRouterHandler ApiHandlerOptions
  | AwsBedrockHandler ApiHandlerOptions
  | VertexHandler ApiHandlerOptions
  | OpenAiHandler ApiHandlerOptions
  | OllamaHandler ApiHandlerOptions
  | LmStudioHandler ApiHandlerOptions
  | GeminiHandler ApiHandlerOptions
  | OpenAiNativeHandler ApiHandlerOptions
  | DeepSeekHandler ApiHandlerOptions

definition handlerOptions :: "ApiConfiguration \<Rightarrow> ApiHandlerOptions" where
  "handlerOptions configuration =
     \<lparr>apiModelId = apiModelId configuration, apiKey = apiKey configuration\<rparr>"

definition buildApiHandler :: "ApiConfiguration \<Rightarrow> ApiHandler" where
  "buildApiHandler configuration =
     (let options = handlerOptions configuration
      in case apiProvider configuration of
           Some anthropic \<Rightarrow> AnthropicHandler options
         | Some openrouter \<Rightarrow> OpenRouterHandler options
         | Some bedrock \<Rightarrow> AwsBedrockHandler options
         | Some vertex \<Rightarrow> VertexHandler options
         | Some openai \<Rightarrow> OpenAiHandler options
         | Some ollama \<Rightarrow> OllamaHandler options
         | Some lmstudio \<Rightarrow> LmStudioHandler options
         | Some gemini \<Rightarrow> GeminiHandler options
         | Some openai_native \<Rightarrow> OpenAiNativeHandler options
         | Some deepseek \<Rightarrow> DeepSeekHandler options
         | None \<Rightarrow> AnthropicHandler options)"

text \<open>
  Modelled from the spec: the handler classes and the stream type \<^verbatim>\<open>ApiStream\<close> are
  imported from files that are not part of the sources. The specification describes
  the backend as returning a lazy, finite sequence of chunks, each a text fragment or
  an event to be ignored, that may fail while it is consumed. A stream is therefore
  the list of what each request for the next chunk does: it yields a chunk or it
  throws; the end of the list is the end of the stream. The backend itself is a
  parameter: what \<^verbatim>\<open>new ...Handler(options)\<close> followed by \<^verbatim>\<open>handler.createMessage\<close> does
  for a handler, a system prompt and the content of the one user message. Either
  one of the two raises (\<open>Inl\<close>), or the call gives the stream (\<open>Inr\<close>).

  A chunk is an object with a \<^verbatim>\<open>text\<close> property, an object without one, or (the
  second branch of the loop asks for it) a primitive string.
\<close>

datatype ApiStreamChunk = TextChunk string | EventChunk | StringChunk string

datatype StreamStep = Yield ApiStreamChunk | Throw

type_synonym ApiStream = "StreamStep list"

datatype JsError = StreamError | TypeError | IllegalLine | InvocationError

type_synonym Backend = "ApiHandler \<Rightarrow> string \<Rightarrow> string \<Rightarrow> JsError + ApiStream"

text \<open>
  The \<^verbatim>\<open>for await\<close> loop of lines 146 to 152, started with the empty
  \<^verbatim>\<open>responseText\<close>. The test \<^verbatim>\<open>'text' in chunk\<close> comes first, and the \<^verbatim>\<open>in\<close>
  operator raises a TypeError when its right operand is a primitive, so a primitive
  string never reaches the \<^verbatim>\<open>typeof\<close> test of the second branch.
\<close>

fun consumeStream :: "string \<Rightarrow> ApiStream \<Rightarrow> JsError + string" where
  "consumeStream responseText [] = Inr responseText"
| "consumeStream responseText (Throw # rest) = Inl StreamError"
| "consumeStream responseText (Yield (TextChunk t) # rest) =
     consumeStream (responseText @ t) rest"
| "consumeStream responseText (Yield EventChunk # rest) =
     consumeStream responseText rest"
| "consumeStream responseText (Yield (StringChunk t) # rest) = Inl TypeError"

text \<open>
  The steps at which the loop is left by an exception, and what a step adds to
  \<^verbatim>\<open>responseText\<close>.
\<close>

fun failsAt :: "StreamStep \<Rightarrow> bool" where
  "failsAt Throw = True"
| "failsAt (Yield (StringChunk t)) = True"
| "failsAt (Yield (TextChunk t)) = False"
| "failsAt (Yield EventChunk) = False"

fun stepText :: "StreamStep \<Rightarrow> string" where
  "stepText (Yield (TextChunk t)) = t"
| "stepText (Yield EventChunk) = []"
| "stepText (Yield (StringChunk t)) = []"
| "stepText Throw = []"

subsection \<open>The prompt\<close>

record CompletionOptions =
  prompt :: string
  maxTokens :: int
  temperature :: rat
  cursorPosition :: int

text \<open>
  The provider of src/services/completion passes one more property,
  \<^verbatim>\<open>configuration\<close>, which the interface \<^verbatim>\<open>CompletionOptions\<close> does not declare.
  \<^verbatim>\<open>getCompletion\<close> is written against the interface, so it takes any extension of
  the record.
\<close>

record CompletionRequest = CompletionOptions +
  configuration :: ApiConfiguration

record CompletionResult =
  resultText :: string
  detail :: "string option"

fun joinWith :: "string \<Rightarrow> string list \<Rightarrow> string" where
  "joinWith sep [] = []"
| "joinWith sep [l] = l"
| "joinWith sep (l # m # ls) = l @ sep @ joinWith sep (m # ls)"

text \<open>The template literal of lines 40 to 122, line by line.\<close>

definition SYSTEM_MSG :: string where
  "SYSTEM_MSG = joinWith [NEWLINE] [
     ''You are a HOLE FILLER. You are provided with a file containing holes, formatted as '{{HOLE_NAME}}'. Your TASK is to complete with a string to replace this hole with, inside a <COMPLETION/> XML tag, including context-aware indentation, if needed.  All completions MUST be truthful, accurate, well-written and correct.'',
     '''',
     ''## EXAMPLE QUERY:'',
     '''',
     ''<QUERY>'',
     ''function sum_evens(lim) {'',
     ''  var sum = 0;'',
     ''  for (var i = 0; i < lim; ++i) {'',
     ''    {{FILL_HERE}}'',
     ''  }'',
     ''  return sum;'',
     ''}'',
     ''</QUERY>'',
     '''',
     ''TASK: Fill the {{FILL_HERE}} hole.'',
     '''',
     ''## CORRECT COMPLETION'',
     '''',
     ''<COMPLETION>if (i % 2 === 0) {'',
     ''      sum += i;'',
     ''    }</COMPLETION>'',
     '''',
     ''## EXAMPLE QUERY:'',
     '''',
     ''<QUERY>'',
     ''def sum_list(lst):'',
     ''  total = 0'',
     ''  for x in lst:'',
     ''  {{FILL_HERE}}'',
     ''  return total'',
     '''',
     ''print sum_list([1, 2, 3])'',
     ''</QUERY>'',
     '''',
     ''## CORRECT COMPLETION:'',
     '''',
     ''<COMPLETION>  total += x</COMPLETION>'',
     '''',
     ''## EXAMPLE QUERY:'',
     '''',
     ''<QUERY>'',
     ''// data Tree a = Node (Tree a) (Tree a) | Leaf a'',
     '''',
     ''// sum :: Tree Int -> Int'',
     ''// sum (Node lft rgt) = sum lft + sum rgt'',
     ''// sum (Leaf val)     = val'',
     '''',
     ''// convert to TypeScript:'',
     ''{{FILL_HERE}}'',
     ''</QUERY>'',
     '''',
     ''## CORRECT COMPLETION:'',
     '''',
     ''<COMPLETION>type Tree<T>'',
     ''  = {$:\"Node\", lft: Tree<T>, rgt: Tree<T>}'',
     ''  | {$:\"Leaf\", val: T};'',
     '''',
     ''function sum(tree: Tree<number>): number {'',
     ''  switch (tree.$) {'',
     ''    case \"Node\":'',
     ''      return sum(tree.lft) + sum(tree.rgt);'',
     ''    case \"Leaf\":'',
     ''      return tree.val;'',
     ''  }'',
     ''}</COMPLETION>'',
     '''',
     ''## EXAMPLE QUERY:'',
     '''',
     ''The 5th {{FILL_HERE}} is Jupiter.'',
     '''',
     ''## CORRECT COMPLETION:'',
     '''',
     ''<COMPLETION>planet from the Sun</COMPLETION>'',
     '''',
     ''## EXAMPLE QUERY:'',
     '''',
     ''function hypothenuse(a, b) {'',
     ''  return Math.sqrt({{FILL_HERE}}b ** 2);'',
     ''}'',
     '''',
     ''## CORRECT COMPLETION:'',
     '''',
     ''<COMPLETION>a ** 2 + </COMPLETION>'']"

definition FILL_HERE :: string where
  "FILL_HERE = ''{{FILL_HERE}}''"

definition QUERY_OPEN :: string where
  "QUERY_OPEN = [NEWLINE, NEWLINE] @ ''<QUERY>'' @ [NEWLINE]"

definition CLOSING_INSTRUCTION :: string where
  "CLOSING_INSTRUCTION =
     [NEWLINE] @ ''</QUERY>'' @ [NEWLINE]
     @ ''TASK: Fill the {{FILL_HERE}} hole. Answer only with the CORRECT completion, and NOTHING ELSE. Do it now.''
     @ [NEWLINE] @ ''<COMPLETION>''"

definition lastLineBreakIndex :: "'a CompletionOptions_scheme \<Rightarrow> int" where
  "lastLineBreakIndex options = lastIndexOf (prompt options) [NEWLINE]"

definition contextPrefix :: "'a CompletionOptions_scheme \<Rightarrow> string" where
  "contextPrefix options = substring (prompt options) 0 (lastLineBreakIndex options + 1)"

definition lastLine :: "'a CompletionOptions_scheme \<Rightarrow> string" where
  "lastLine options = substringFrom (prompt options) (lastLineBreakIndex options + 1)"

definition promptPrefix :: "'a CompletionOptions_scheme \<Rightarrow> string" where
  "promptPrefix options =
     contextPrefix options @ substring (lastLine options) 0 (cursorPosition options)"

definition promptSuffix :: "'a CompletionOptions_scheme \<Rightarrow> string" where
  "promptSuffix options = substringFrom (lastLine options) (cursorPosition options)"

definition fullPrompt :: "'a CompletionOptions_scheme \<Rightarrow> string" where
  "fullPrompt options =
     SYSTEM_MSG @ QUERY_OPEN @ promptPrefix options @ FILL_HERE @ promptSuffix options
     @ CLOSING_INSTRUCTION"

subsection \<open>getCompletion\<close>

text \<open>
  The configuration of lines 127 to 131. The key is a literal in the source; its
  characters are of no consequence here and are not repeated.
\<close>

definition EMBEDDED_API_KEY :: string where
  "EMBEDDED_API_KEY = ''sk-ant-api03-(elided)''"

definition completionConfiguration :: ApiConfiguration where
  "completionConfiguration =
     \<lparr>apiModelId = Some ''claude-3-5-sonnet-20240620'',
      apiKey = Some EMBEDDED_API_KEY,
      apiProvider = Some anthropic\<rparr>"

definition completionHandler :: ApiHandler where
  "completionHandler = buildApiHandler completionConfiguration"

definition HOLE_FILLER :: string where
  "HOLE_FILLER = ''You are a HOLE FILLER.''"

text \<open>
  Lines 133 to 142: the handler is built and \<^verbatim>\<open>createMessage\<close> is called before the
  \<^verbatim>\<open>try\<close> of line 145 is entered.
\<close>

definition completionStream ::
  "Backend \<Rightarrow> 'a CompletionOptions_scheme \<Rightarrow> JsError + ApiStream" where
  "completionStream backend options =
     backend completionHandler HOLE_FILLER (fullPrompt options)"

text \<open>
  Lines 144 to 168, the \<^verbatim>\<open>try\<close> around the loop and the extraction, and its
  \<^verbatim>\<open>catch\<close>.
\<close>

definition drainAndExtract :: "ApiStream \<Rightarrow> CompletionResult list" where
  "drainAndExtract stream =
     (case consumeStream [] stream of
        Inr responseText \<Rightarrow>
          [\<lparr>resultText = extractCompletion responseText, detail = Some ''AI Completion''\<rparr>]
      | Inl error \<Rightarrow>
          [\<lparr>resultText = [], detail = Some ''Error generating completion''\<rparr>])"

text \<open>
  The whole function. \<open>Inl\<close> is the promise rejected: an exception raised before the
  \<^verbatim>\<open>try\<close> reaches the caller.
\<close>

definition getCompletion ::
  "Backend \<Rightarrow> 'a CompletionOptions_scheme \<Rightarrow> JsError + CompletionResult list" where
  "getCompletion backend options =
     (case completionStream backend options of
        Inl error \<Rightarrow> Inl error
      | Inr stream \<Rightarrow> Inr (drainAndExtract stream))"

section \<open>The editor host\<close>

text \<open>
  What the provider reads of the editor: positions and ranges, the lines of the
  document, and \<^verbatim>\<open>document.getText(range)\<close>. A \<^verbatim>\<open>Position\<close> holds two non-negative
  numbers (its constructor rejects any other), a \<^verbatim>\<open>Range\<close> orders its two ends, and
  \<^verbatim>\<open>getText\<close> first moves both ends of the range into the document and then joins
  the lines it covers with the line ending of the document.
\<close>

record Position =
  line :: nat
  character :: nat

record Range =
  rangeStart :: Position
  rangeEnd :: Position

definition isBefore :: "Position \<Rightarrow> Position \<Rightarrow> bool" where
  "isBefore a b = (line a < line b \<or> (line a = line b \<and> character a < character b))"

definition newRange :: "Position \<Rightarrow> Position \<Rightarrow> Range" where
  "newRange a b =
     (if isBefore b a then \<lparr>rangeStart = b, rangeEnd = a\<rparr>
      else \<lparr>rangeStart = a, rangeEnd = b\<rparr>)"

record TextDocument =
  lines :: "string list"
  eol :: string

definition lineCount :: "TextDocument \<Rightarrow> nat" where
  "lineCount d = length (lines d)"

text \<open>\<^verbatim>\<open>document.lineAt(n).text\<close>; the host raises for a line that does not exist.\<close>

definition lineAt :: "TextDocument \<Rightarrow> nat \<Rightarrow> JsError + string" where
  "lineAt d n = (if n < lineCount d then Inr (lines d ! n) else Inl IllegalLine)"

definition validatePosition :: "TextDocument \<Rightarrow> Position \<Rightarrow> Position" where
  "validatePosition d p =
     (if lineCount d = 0 then \<lparr>line = 0, character = 0\<rparr>
      else if line p \<ge> lineCount d
        then \<lparr>line = lineCount d - 1, character = length (lines d ! (lineCount d - 1))\<rparr>
      else \<lparr>line = line p, character = min (character p) (length (lines d ! line p))\<rparr>)"

definition getText :: "TextDocument \<Rightarrow> Range \<Rightarrow> string" where
  "getText d r =
     (let s = validatePosition d (rangeStart r); e = validatePosition d (rangeEnd r)
      in if lineCount d = 0 \<or> s = e then []
         else if line s = line e
           then substring (lines d ! line s) (int (character s)) (int (character e))
         else joinWith (eol d)
                ([substringFrom (lines d ! line s) (int (character s))]
                 @ map (\<lambda>i. lines d ! i) [Suc (line s)..<line e]
                 @ [substring (lines d ! line e) 0 (int (character e))]))"

section \<open>The completion provider (src/services/completion/AICompletionProvider.ts)\<close>

subsection \<open>Session state and the inputs of one call\<close>

record LastInput =
  inputLine :: nat
  inputCharacter :: nat
  inputText :: string

record InlineCompletionItem =
  insertText :: string
  itemRange :: Range

record InlineCompletionList =
  items :: "InlineCompletionItem list"

record SessionState =
  lastTriggerTime :: int
  lastInput :: "LastInput option"
  lastCompletionText :: "string option"
  lastCompetionList :: "InlineCompletionList option"

definition initialState :: SessionState where
  "initialState =
     \<lparr>lastTriggerTime = 0, lastInput = None, lastCompletionText = None,
      lastCompetionList = None\<rparr>"

definition TRIGGER_DELAY :: int where
  "TRIGGER_DELAY = 1000"

record SelectedCompletionInfo =
  infoText :: string
  infoRange :: Range

text \<open>
  \<^verbatim>\<open>ClineProvider.getVisibleInstance()\<close> and \<^verbatim>\<open>provider.getState()\<close>: there is no
  visible instance, or reading its state fails (inside the \<^verbatim>\<open>try\<close>), or it gives the
  configuration.
\<close>

datatype VisibleInstance =
  NoVisibleInstance | GetStateFails | VisibleState ApiConfiguration

text \<open>
  Everything one call of \<^verbatim>\<open>provideInlineCompletionItems\<close> reads from outside the
  session state. The cancellation token is read once, on entry
  (\<open>isCancellationRequested\<close>); \<open>cancelledDuringRoundTrip\<close> says whether the host
  raises the signal later, while the backend is awaited. \<^verbatim>\<open>Date.now()\<close> is read in
  \<^verbatim>\<open>shouldTriggerCompletion\<close> (\<open>gateClock\<close>) and after the backend has answered
  (\<open>responseClock\<close>). What is written to the output channel is not modelled: nothing
  reads it.
\<close>

record CallEnv =
  document :: TextDocument
  position :: Position
  isCancellationRequested :: bool
  cancelledDuringRoundTrip :: bool
  activeEditorSelections :: "nat option"
  selectedCompletionInfo :: "SelectedCompletionInfo option"
  gateClock :: int
  responseClock :: int
  visibleInstance :: VisibleInstance
  backend :: Backend

text \<open>
  A call of \<^verbatim>\<open>getCompletion\<close>: what it was passed and how its promise was settled,
  rejected (\<open>Inl\<close>) or fulfilled with a list of results (\<open>Inr\<close>).
\<close>

record BackendCall =
  request :: CompletionRequest
  response :: "JsError + CompletionResult list"

text \<open>
  What a call leaves behind: the value it returns (\<open>None\<close> is \<^verbatim>\<open>undefined\<close>, "no
  suggestion"), the session state, and the calls of \<^verbatim>\<open>getCompletion\<close> it made.
\<close>

record Outcome =
  returned :: "InlineCompletionList option"
  state :: SessionState
  backendCalls :: "BackendCall list"

subsection \<open>The guards\<close>

text \<open>
  \<^verbatim>\<open>isInString\<close>, lines 196 to 212. The loop keeps \<open>inString\<close> and \<open>quote\<close>; the
  escape test reads the last character of the whole prefix.
\<close>

fun isInStringLoop :: "string \<Rightarrow> bool \<Rightarrow> char option \<Rightarrow> string \<Rightarrow> bool" where
  "isInStringLoop linePrefix inString quote [] = inString"
| "isInStringLoop linePrefix inString quote (c # cs) =
     (if (c = DQUOTE \<or> c = SQUOTE) \<and> quote = None
        then isInStringLoop linePrefix True (Some c) cs
      else if Some c = quote
        then (if linePrefix = [] \<or> last linePrefix \<noteq> BACKSLASH
                then isInStringLoop linePrefix (\<not> inString) quote cs
              else isInStringLoop linePrefix inString quote cs)
      else isInStringLoop linePrefix inString quote cs)"

definition isInString :: "string \<Rightarrow> bool" where
  "isInString linePrefix = isInStringLoop linePrefix False None linePrefix"



text \<open>\<^verbatim>\<open>isInComment\<close>, lines 182 to 194.\<close>

definition isInComment :: "TextDocument \<Rightarrow> Position \<Rightarrow> JsError + bool" where
  "isInComment d p =
     (case lineAt d (line p) of
        Inl err \<Rightarrow> Inl err
      | Inr currentLine \<Rightarrow>
          (let pre = substring currentLine 0 (int (character p))
           in if firstIndexOf ''//'' pre \<noteq> None then Inr True
              else (let txt = getText d (newRange \<lparr>line = 0, character = 0\<rparr> p);
                        commentStart = lastIndexOf txt ''/*'';
                        commentEnd = lastIndexOf txt ''*/''
                    in Inr (commentStart > commentEnd))))"

text \<open>
  The loop of lines 151 to 154: the trimmed text of up to three lines before the
  cursor line.
\<close>

fun trimmedLines :: "TextDocument \<Rightarrow> nat list \<Rightarrow> JsError + string list" where
  "trimmedLines d [] = Inr []"
| "trimmedLines d (i # rest) =
     (case lineAt d i of
        Inl err \<Rightarrow> Inl err
      | Inr t \<Rightarrow>
          (case trimmedLines d rest of
             Inl err \<Rightarrow> Inl err
           | Inr ts \<Rightarrow> Inr (trim t # ts)))"

definition windowStart :: "Position \<Rightarrow> nat" where
  "windowStart p = nat (max 0 (int (line p) - 3))"

text \<open>
  What follows the rate limit in \<^verbatim>\<open>shouldTriggerCompletion\<close>, and what precedes it in
  the variant of the second file.
\<close>

definition contextAllows :: "string list \<Rightarrow> string \<Rightarrow> bool" where
  "contextAllows prevLines linePrefix =
     ((trim linePrefix = [] \<and> list_ex (\<lambda>l. l \<noteq> []) prevLines) \<or> trim linePrefix \<noteq> [])"

definition lexicalGuards :: "TextDocument \<Rightarrow> Position \<Rightarrow> string \<Rightarrow> JsError + bool" where
  "lexicalGuards d p linePrefix =
     (case isInComment d p of
        Inl err \<Rightarrow> Inl err
      | Inr True \<Rightarrow> Inr False
      | Inr False \<Rightarrow> (if isInString linePrefix then Inr False else Inr False))"

text \<open>\<^verbatim>\<open>shouldTriggerCompletion\<close>, lines 133 to 180: the rate limit comes first.\<close>

definition shouldTriggerCompletion ::
  "SessionState \<Rightarrow> int \<Rightarrow> TextDocument \<Rightarrow> Position \<Rightarrow> string \<Rightarrow> JsError + bool" where
  "shouldTriggerCompletion s now d p linePrefix =
     (if now - lastTriggerTime s < TRIGGER_DELAY then Inr False
      else case trimmedLines d [windowStart p..<line p] of
             Inl err \<Rightarrow> Inl err
           | Inr prevLines \<Rightarrow>
               (if contextAllows prevLines linePrefix then Inr True
                else lexicalGuards d p linePrefix))"

text \<open>
  \<^verbatim>\<open>shouldTriggerCompletion\<close> of the second provider file (src/unnamed/part_000, lines
  77 to 124), whose only state is \<^verbatim>\<open>lastTriggerTime\<close>: the contextual allowances come
  first, the rate limit after them.
\<close>

definition shouldTriggerCompletion_part000 ::
  "int \<Rightarrow> int \<Rightarrow> TextDocument \<Rightarrow> Position \<Rightarrow> string \<Rightarrow> JsError + bool" where
  "shouldTriggerCompletion_part000 lastTrigger now d p linePrefix =
     (case trimmedLines d [windowStart p..<line p] of
        Inl err \<Rightarrow> Inl err
      | Inr prevLines \<Rightarrow>
          (if contextAllows prevLines linePrefix then Inr True
           else if now - lastTrigger < TRIGGER_DELAY then Inr False
           else lexicalGuards d p linePrefix))"

text \<open>\<^verbatim>\<open>getContextRange\<close>, lines 214 to 221. \<open>endLine\<close> is computed and not used.\<close>

definition getContextRange :: "TextDocument \<Rightarrow> Position \<Rightarrow> Range" where
  "getContextRange d p =
     (let startLine = nat (max 0 (int (line p) - 3));
          endLine = min (lineCount d) (line p + 1)
      in newRange \<lparr>line = startLine, character = 0\<rparr> p)"

subsection \<open>provideInlineCompletionItems\<close>

text \<open>
  Lines 24 to 38: the cancellation token, more than one selection in the active
  editor, a selected suggestion that does not start with the text of its range.
\<close>

definition deniedOnEntry :: "CallEnv \<Rightarrow> bool" where
  "deniedOnEntry e =
     (isCancellationRequested e
      \<or> (case activeEditorSelections e of None \<Rightarrow> False | Some n \<Rightarrow> n > 1)
      \<or> (case selectedCompletionInfo e of
            None \<Rightarrow> False
          | Some info \<Rightarrow> \<not> prefix (getText (document e) (infoRange info)) (infoText info)))"

text \<open>Lines 54 to 57.\<close>

definition sameAsLastInput :: "SessionState \<Rightarrow> LastInput \<Rightarrow> bool" where
  "sameAsLastInput s currentInput =
     (case lastInput s of
        None \<Rightarrow> False
      | Some l \<Rightarrow>
          inputLine l = inputLine currentInput
          \<and> inputCharacter l = inputCharacter currentInput
          \<and> inputText l = inputText currentInput)"

text \<open>Line 66; the empty string is falsy, as \<^verbatim>\<open>null\<close> is.\<close>

definition sameAsLastCompletion :: "SessionState \<Rightarrow> string \<Rightarrow> bool" where
  "sameAsLastCompletion s currentLine =
     (case lastCompletionText s of
        None \<Rightarrow> False
      | Some t \<Rightarrow> t \<noteq> [] \<and> trim currentLine = trim t)"

text \<open>Lines 106 to 121: one item per completion, each with the empty range at the cursor.\<close>

definition completionList :: "Position \<Rightarrow> CompletionResult list \<Rightarrow> InlineCompletionList" where
  "completionList p completions =
     \<lparr>items = map (\<lambda>c. \<lparr>insertText = resultText c, itemRange = newRange p p\<rparr>) completions\<rparr>"

text \<open>
  The writes of lines 104 to 124: the time stamp, \<^verbatim>\<open>lastCompletionText\<close> once for each
  completion in turn, and the list.
\<close>

definition recordCompletions ::
  "SessionState \<Rightarrow> int \<Rightarrow> Position \<Rightarrow> CompletionResult list \<Rightarrow> SessionState" where
  "recordCompletions s now p completions =
     s\<lparr>lastTriggerTime := now,
       lastCompletionText := foldl (\<lambda>t c. Some (resultText c)) (lastCompletionText s) completions,
       lastCompetionList := Some (completionList p completions)\<rparr>"

type_synonym CompletionClient =
  "Backend \<Rightarrow> CompletionRequest \<Rightarrow> JsError + CompletionResult list"

text \<open>
  The \<^verbatim>\<open>try\<close> block, lines 75 to 130, with the function imported as
  \<^verbatim>\<open>getCompletion\<close> as a parameter. A rejected promise is caught at line 126, like a
  failure to read the state of the visible instance.
\<close>

definition requestCompletion :: "CompletionClient \<Rightarrow> SessionState \<Rightarrow> CallEnv \<Rightarrow> Outcome" where
  "requestCompletion client s e =
     (let contextText = getText (document e) (getContextRange (document e) (position e))
      in case visibleInstance e of
           NoVisibleInstance \<Rightarrow> \<lparr>returned = None, state = s, backendCalls = []\<rparr>
         | GetStateFails \<Rightarrow> \<lparr>returned = None, state = s, backendCalls = []\<rparr>
         | VisibleState apiConfiguration \<Rightarrow>
             (let req = \<lparr>prompt = contextText, maxTokens = 50, temperature = 2 / 10,
                         cursorPosition = int (character (position e)),
                         configuration = apiConfiguration\<rparr>;
                  settled = client (backend e) req;
                  call = \<lparr>request = req, response = settled\<rparr>
              in case settled of
                   Inl err \<Rightarrow> \<lparr>returned = None, state = s, backendCalls = [call]\<rparr>
                 | Inr completions \<Rightarrow>
                     if completions = []
                       then \<lparr>returned = None, state = s, backendCalls = [call]\<rparr>
                     else \<lparr>returned = Some (completionList (position e) completions),
                           state = recordCompletions s (responseClock e) (position e)
                                     completions,
                           backendCalls = [call]\<rparr>))"

text \<open>
  The whole method. An exception that leaves it is \<open>Inl\<close>, with the session state
  at that moment.
\<close>

definition provideInlineCompletionItems_with ::
  "CompletionClient \<Rightarrow> SessionState \<Rightarrow> CallEnv \<Rightarrow> (JsError \<times> SessionState) + Outcome" where
  "provideInlineCompletionItems_with client s e =
     (if deniedOnEntry e then Inr \<lparr>returned = None, state = s, backendCalls = []\<rparr>
      else case lineAt (document e) (line (position e)) of
             Inl err \<Rightarrow> Inl (err, s)
           | Inr currentLine \<Rightarrow>
               (let linePrefix = substring currentLine 0 (int (character (position e)));
                    currentInput = \<lparr>inputLine = line (position e),
                                    inputCharacter = character (position e),
                                    inputText = linePrefix\<rparr>
                in if sameAsLastInput s currentInput
                     then Inr \<lparr>returned = lastCompetionList s, state = s, backendCalls = []\<rparr>
                   else (let s1 = s\<lparr>lastInput := Some currentInput\<rparr>
                         in if sameAsLastCompletion s1 currentLine
                              then Inr \<lparr>returned = lastCompetionList s1, state = s1,
                                        backendCalls = []\<rparr>
                            else case shouldTriggerCompletion s1 (gateClock e) (document e)
                                        (position e) linePrefix of
                                   Inl err \<Rightarrow> Inl (err, s1)
                                 | Inr False \<Rightarrow>
                                     Inr \<lparr>returned = None, state = s1, backendCalls = []\<rparr>
                                 | Inr True \<Rightarrow> Inr (requestCompletion client s1 e))))"

definition provideInlineCompletionItems ::
  "SessionState \<Rightarrow> CallEnv \<Rightarrow> (JsError \<times> SessionState) + Outcome" where
  "provideInlineCompletionItems = provideInlineCompletionItems_with getCompletion"

text \<open>
  The fingerprint of a call: the line and the character of the cursor and the text
  of the line before it; \<open>None\<close> when the document has no such line.
\<close>

definition fingerprint :: "CallEnv \<Rightarrow> LastInput option" where
  "fingerprint e =
     (case lineAt (document e) (line (position e)) of
        Inl err \<Rightarrow> None
      | Inr currentLine \<Rightarrow>
          Some \<lparr>inputLine = line (position e), inputCharacter = character (position e),
                inputText = substring currentLine 0 (int (character (position e)))\<rparr>)"

subsection \<open>The provider of the second file (src/unnamed/part_000)\<close>

text \<open>
  Lines 13 to 75. This class keeps \<^verbatim>\<open>lastTriggerTime\<close> only, never reads the
  cancellation token, and returns the empty array where the other returns
  \<^verbatim>\<open>undefined\<close>, also from its \<^verbatim>\<open>catch\<close>.
\<close>

record Outcome_part000 =
  returnedItems :: "InlineCompletionItem list"
  lastTriggerTimeAfter :: int
  completionRequests :: "CompletionOptions list"

definition provideInlineCompletionItems_part000 ::
  "int \<Rightarrow> CallEnv \<Rightarrow> JsError + Outcome_part000" where
  "provideInlineCompletionItems_part000 lastTrigger e =
     (case lineAt (document e) (line (position e)) of
        Inl err \<Rightarrow> Inl err
      | Inr currentLine \<Rightarrow>
          (let linePrefix = substring currentLine 0 (int (character (position e)))
           in case shouldTriggerCompletion_part000 lastTrigger (gateClock e) (document e)
                     (position e) linePrefix of
                Inl err \<Rightarrow> Inl err
              | Inr False \<Rightarrow>
                  Inr \<lparr>returnedItems = [], lastTriggerTimeAfter = lastTrigger,
                       completionRequests = []\<rparr>
              | Inr True \<Rightarrow>
                  (let contextText =
                         getText (document e) (getContextRange (document e) (position e));
                       req = \<lparr>prompt = contextText, maxTokens = 50, temperature = 2 / 10,
                              cursorPosition = int (character (position e))\<rparr>;
                       nothing = \<lparr>returnedItems = [], lastTriggerTimeAfter = lastTrigger,
                                  completionRequests = [req]\<rparr>
                   in case getCompletion (backend e) req of
                        Inl err \<Rightarrow> Inr nothing
                      | Inr completions \<Rightarrow>
                          if completions = [] then Inr nothing
                          else Inr \<lparr>returnedItems =
                                      items (completionList (position e) completions),
                                    lastTriggerTimeAfter = responseClock e,
                                    completionRequests = [req]\<rparr>)))"

subsection \<open>The method in segments\<close>

text \<open>
  The method is asynchronous. From its call to the first \<^verbatim>\<open>await\<close> (line 87) it runs
  in one piece; it is suspended there and at the \<^verbatim>\<open>await\<close> of line 90; and from the
  moment the promise of \<^verbatim>\<open>getCompletion\<close> is settled to its return it runs in one
  piece again. Nothing between the two awaits reads or writes the session state,
  and the host may call the method again while a call is suspended.

  \<open>startCall\<close> is the first piece: the method raises, or returns without having
  been suspended, or is suspended. The rest of a suspended call is
  \<open>requestCompletion\<close>, applied to the session state it finds when it is resumed.
\<close>

datatype CallStart =
    Raises JsError SessionState
  | Returns "InlineCompletionList option" SessionState
  | Awaits SessionState

definition startCall :: "SessionState \<Rightarrow> CallEnv \<Rightarrow> CallStart" where
  "startCall s e =
     (if deniedOnEntry e then Returns None s
      else case lineAt (document e) (line (position e)) of
             Inl err \<Rightarrow> Raises err s
           | Inr currentLine \<Rightarrow>
               (let linePrefix = substring currentLine 0 (int (character (position e)));
                    currentInput = \<lparr>inputLine = line (position e),
                                    inputCharacter = character (position e),
                                    inputText = linePrefix\<rparr>
                in if sameAsLastInput s currentInput then Returns (lastCompetionList s) s
                   else (let s1 = s\<lparr>lastInput := Some currentInput\<rparr>
                         in if sameAsLastCompletion s1 currentLine
                              then Returns (lastCompetionList s1) s1
                            else case shouldTriggerCompletion s1 (gateClock e) (document e)
                                        (position e) linePrefix of
                                   Inl err \<Rightarrow> Raises err s1
                                 | Inr False \<Rightarrow> Returns None s1
                                 | Inr True \<Rightarrow>
                                     (case visibleInstance e of
                                        NoVisibleInstance \<Rightarrow> Returns None s1
                                      | GetStateFails \<Rightarrow> Awaits s1
                                      | VisibleState apiConfiguration \<Rightarrow> Awaits s1))))"

text \<open>
  A session: the state, the calls that are suspended, and the calls of
  \<^verbatim>\<open>getCompletion\<close> whose promise has been settled, the most recent first. An event
  is a call by the host or the resumption of one of the suspended calls, in any
  order the host and the backend bring about.
\<close>

record Session =
  current :: SessionState
  inFlight :: "CallEnv list"
  settledCalls :: "BackendCall list"

datatype Event = Invoke CallEnv | Settle nat

definition initialSession :: Session where
  "initialSession = \<lparr>current = initialState, inFlight = [], settledCalls = []\<rparr>"

definition step :: "Session \<Rightarrow> Event \<Rightarrow> Session" where
  "step \<sigma> ev =
     (case ev of
        Invoke e \<Rightarrow>
          (case startCall (current \<sigma>) e of
             Raises err s' \<Rightarrow> \<sigma>\<lparr>current := s'\<rparr>
           | Returns r s' \<Rightarrow> \<sigma>\<lparr>current := s'\<rparr>
           | Awaits s' \<Rightarrow> \<sigma>\<lparr>current := s', inFlight := inFlight \<sigma> @ [e]\<rparr>)
      | Settle n \<Rightarrow>
          (if n < length (inFlight \<sigma>)
             then (let out = requestCompletion getCompletion (current \<sigma>) (inFlight \<sigma> ! n)
                   in \<lparr>current = state out,
                       inFlight = take n (inFlight \<sigma>) @ drop (Suc n) (inFlight \<sigma>),
                       settledCalls = rev (backendCalls out) @ settledCalls \<sigma>\<rparr>)
           else \<sigma>))"

definition runEvents :: "Event list \<Rightarrow> Session" where
  "runEvents evs = foldl step initialSession evs"

text \<open>
  The results of the most recently settled call that was fulfilled with a list that
  is not empty, if there is one.
\<close>

fun latestResults :: "BackendCall list \<Rightarrow> CompletionResult list option" where
  "latestResults [] = None"
| "latestResults (c # older) =
     (case response c of
        Inl err \<Rightarrow> latestResults older
      | Inr [] \<Rightarrow> latestResults older
      | Inr (r # rs) \<Rightarrow> Some (r # rs))"

text \<open>
  The cache follows the answers: without such results neither \<^verbatim>\<open>lastCompetionList\<close>
  nor \<^verbatim>\<open>lastCompletionText\<close> is set; with them, they are one result, the cached list
  holds its text in its one item, and \<^verbatim>\<open>lastCompletionText\<close> is that text.
\<close>

definition cacheFollowsAnswers :: "Session \<Rightarrow> bool" where
  "cacheFollowsAnswers \<sigma> =
     (case latestResults (settledCalls \<sigma>) of
        None \<Rightarrow>
          lastCompetionList (current \<sigma>) = None \<and> lastCompletionText (current \<sigma>) = None
      | Some rs \<Rightarrow>
          length rs = 1
          \<and> map_option (\<lambda>l. map insertText (items l)) (lastCompetionList (current \<sigma>))
              = Some (map resultText rs)
          \<and> lastCompletionText (current \<sigma>) = Some (resultText (last rs)))"

subsection \<open>What a caller sees of a call\<close>

definition visibleOutcome ::
  "(JsError \<times> SessionState) + Outcome \<Rightarrow>
   (JsError \<times> SessionState)
   + (InlineCompletionList option \<times> SessionState
      \<times> (JsError + CompletionResult list) list)" where
  "visibleOutcome r =
     map_sum id (\<lambda>out. (returned out, state out, map response (backendCalls out))) r"

text \<open>The results a settled promise carries: none when it was rejected.\<close>

definition fulfilled :: "JsError + CompletionResult list \<Rightarrow> CompletionResult list" where
  "fulfilled settled = (case settled of Inl err \<Rightarrow> [] | Inr completions \<Rightarrow> completions)"

subsection \<open>Example inputs\<close>

text \<open>
  A document of one line with the cursor at its end, one of five lines, a backend
  that answers with one text chunk, one that fails after its first chunk, and one
  whose \<^verbatim>\<open>createMessage\<close> raises.
\<close>

definition answering :: "string \<Rightarrow> Backend" where
  "answering t = (\<lambda>handler systemPrompt content. Inr [Yield (TextChunk t)])"

definition failingBackend :: Backend where
  "failingBackend =
     (\<lambda>handler systemPrompt content. Inr [Yield (TextChunk ''<COMPLETION>a''), Throw])"

definition refusingBackend :: Backend where
  "refusingBackend = (\<lambda>handler systemPrompt content. Inl InvocationError)"

definition exampleOptions :: CompletionOptions where
  "exampleOptions =
     \<lparr>prompt = ''let a = 1;'' @ [NEWLINE] @ ''foo(a, b)'', maxTokens = 50,
      temperature = 2 / 10, cursorPosition = 4\<rparr>"

definition exampleDocument :: TextDocument where
  "exampleDocument = \<lparr>lines = [''foo''], eol = [NEWLINE]\<rparr>"

definition fiveLines :: TextDocument where
  "fiveLines =
     \<lparr>lines = [''l0'', ''l1 abc'', [], ''l3'', ''  foo(x, y)''], eol = [NEWLINE]\<rparr>"

definition exampleCall :: CallEnv where
  "exampleCall =
     \<lparr>document = exampleDocument, position = \<lparr>line = 0, character = 3\<rparr>,
      isCancellationRequested = False, cancelledDuringRoundTrip = False,
      activeEditorSelections = Some 1, selectedCompletionInfo = None,
      gateClock = 5000, responseClock = 5200,
      visibleInstance = VisibleState completionConfiguration,
      backend = answering ''<COMPLETION>bar</COMPLETION>''\<rparr>"

text \<open>
  Calls built from the example call, the state the example call leaves behind when
  it is the first call of a session, and a client that returns no result.
\<close>

definition secondCall :: CallEnv where
  "secondCall = exampleCall\<lparr>gateClock := 5300, responseClock := 5400\<rparr>"

definition cancelledLater :: CallEnv where
  "cancelledLater = exampleCall\<lparr>cancelledDuringRoundTrip := True\<rparr>"

definition cancelledOnEntry :: CallEnv where
  "cancelledOnEntry = secondCall\<lparr>isCancellationRequested := True\<rparr>"

definition failingCall :: CallEnv where
  "failingCall = exampleCall\<lparr>backend := failingBackend\<rparr>"

definition barList :: InlineCompletionList where
  "barList = \<lparr>items = [\<lparr>insertText = ''bar'',
               itemRange = \<lparr>rangeStart = \<lparr>line = 0, character = 3\<rparr>,
                            rangeEnd = \<lparr>line = 0, character = 3\<rparr>\<rparr>\<rparr>]\<rparr>"

definition stateAfterExample :: SessionState where
  "stateAfterExample =
     \<lparr>lastTriggerTime = 5200,
      lastInput = Some \<lparr>inputLine = 0, inputCharacter = 3, inputText = ''foo''\<rparr>,
      lastCompletionText = Some ''bar'',
      lastCompetionList = Some barList\<rparr>"

definition exampleRequest :: CompletionRequest where
  "exampleRequest = \<lparr>prompt = ''foo'', maxTokens = 50, temperature = 2 / 10,
                      cursorPosition = 3, configuration = completionConfiguration\<rparr>"

definition noResultClient :: CompletionClient where
  "noResultClient = (\<lambda>be req. Inr [])"

text \<open>
  A call at another cursor position, a configuration that selects another provider,
  three line prefixes with quotes and one of a space and a tabulator.
\<close>

definition thirdCall :: CallEnv where
  "thirdCall = exampleCall\<lparr>position := \<lparr>line = 0, character = 2\<rparr>, gateClock := 9000,
                            responseClock := 9100\<rparr>"

definition otherConfiguration :: ApiConfiguration where
  "otherConfiguration =
     \<lparr>apiModelId = Some ''deepseek-chat'', apiKey = None, apiProvider = Some deepseek\<rparr>"





definition staleCall :: CallEnv where
  "staleCall = thirdCall\<lparr>gateClock := 5300, responseClock := 5400\<rparr>"

definition cancelledFirst :: CallEnv where
  "cancelledFirst = exampleCall\<lparr>isCancellationRequested := True\<rparr>"

text \<open>
  Two calls that overlap: the first is answered at 5600, after the second, which is
  made at 5300 at another cursor position and answered at 5400.
\<close>

definition slowCall :: CallEnv where
  "slowCall = exampleCall\<lparr>responseClock := 5600\<rparr>"

definition overtakingCall :: CallEnv where
  "overtakingCall = staleCall\<lparr>backend := answering ''<COMPLETION>baz</COMPLETION>''\<rparr>"

definition refusedCall :: CallEnv where
  "refusedCall = thirdCall\<lparr>backend := refusingBackend\<rparr>"

section \<open>Properties of the completion client\<close>

subsection \<open>Extraction\<close>

lemma firstIndexOf_least:
  "firstIndexOf pat s = Some i \<Longrightarrow>
     prefix pat (drop i s) \<and> (\<forall>j<i. \<not> prefix pat (drop j s))"
proof (induction s arbitrary: i)
  case Nil
  then show ?case by (simp split: if_splits)
next
  case (Cons c cs)
  show ?case
  proof (cases "prefix pat (c # cs)")
    case True
    with Cons.prems show ?thesis by simp
  next
    case False
    with Cons.prems obtain k where k: "firstIndexOf pat cs = Some k" and i: "i = Suc k"
      by auto
    from Cons.IH[OF k] have pk: "prefix pat (drop k cs)"
      and least: "\<forall>j<k. \<not> prefix pat (drop j cs)" by simp_all
    have "\<not> prefix pat (drop j (c # cs))" if "j < Suc k" for j
      using that False least by (cases j) simp_all
    with pk i show ?thesis by simp
  qed
qed

lemma lazyGroup_firstIndexOf:
  "lazyGroup s = map_option (\<lambda>j. take j s) (firstIndexOf CLOSE_TAG s)"
proof (induction s)
  case Nil
  then show ?case by (simp add: CLOSE_TAG_def)
next
  case (Cons c cs)
  then show ?case by (simp add: option.map_comp comp_def)
qed

lemma firstIndexOf_None_drop:
  "firstIndexOf CLOSE_TAG s = None \<Longrightarrow> firstIndexOf CLOSE_TAG (drop k s) = None"
proof (induction s arbitrary: k)
  case Nil
  then show ?case by simp
next
  case (Cons c cs)
  then show ?case by (cases k) (auto split: if_splits)
qed

lemma matchAt_Some_close:
  "matchAt s = Some g \<Longrightarrow> firstIndexOf CLOSE_TAG (drop (length OPEN_TAG) s) \<noteq> None"
  by (auto simp: matchAt_def lazyGroup_firstIndexOf split: if_splits)

lemma regexSearch_Some_close:
  "regexSearch s = Some g \<Longrightarrow>
     \<exists>k. firstIndexOf CLOSE_TAG (drop (k + length OPEN_TAG) s) \<noteq> None"
proof (induction s)
  case Nil
  then show ?case by (simp add: matchAt_def OPEN_TAG_def)
next
  case (Cons c cs)
  show ?case
  proof (cases "matchAt (c # cs)")
    case None
    with Cons.prems have "regexSearch cs = Some g" by simp
    from Cons.IH[OF this] obtain k
      where "firstIndexOf CLOSE_TAG (drop (k + length OPEN_TAG) cs) \<noteq> None" by blast
    then have "firstIndexOf CLOSE_TAG (drop (Suc k + length OPEN_TAG) (c # cs)) \<noteq> None"
      by simp
    then show ?thesis by blast
  next
    case (Some a)
    from matchAt_Some_close[OF this]
    have "firstIndexOf CLOSE_TAG (drop (0 + length OPEN_TAG) (c # cs)) \<noteq> None" by simp
    then show ?thesis by blast
  qed
qed

text \<open>
  When no closing tag follows the first opening tag, no later start position
  matches either: whatever follows a later opening tag follows the first one too.
\<close>

lemma regexSearch_None:
  assumes "firstIndexOf CLOSE_TAG (drop (length OPEN_TAG) s) = None"
  shows "regexSearch (drop k s) = None"
proof (rule ccontr)
  assume "regexSearch (drop k s) \<noteq> None"
  then obtain g where "regexSearch (drop k s) = Some g" by blast
  from regexSearch_Some_close[OF this] obtain j
    where j: "firstIndexOf CLOSE_TAG (drop (j + length OPEN_TAG) (drop k s)) \<noteq> None"
    by blast
  have "drop (j + length OPEN_TAG) (drop k s) = drop (j + k) (drop (length OPEN_TAG) s)"
    by (simp add: add.commute add.left_commute)
  with j firstIndexOf_None_drop[OF assms, of "j + k"] show False by simp
qed

lemma regexSearch_between: "regexSearch s = betweenFirstTags s"
proof (induction s)
  case Nil
  then show ?case by (simp add: matchAt_def betweenFirstTags_def OPEN_TAG_def)
next
  case (Cons c cs)
  show ?case
  proof (cases "prefix OPEN_TAG (c # cs)")
    case True
    show ?thesis
    proof (cases "firstIndexOf CLOSE_TAG (drop (length OPEN_TAG) (c # cs))")
      case None
      from regexSearch_None[OF None, of 1] have "regexSearch cs = None" by simp
      with True None show ?thesis
        by (simp add: matchAt_def betweenFirstTags_def lazyGroup_firstIndexOf)
    next
      case (Some j)
      with True show ?thesis
        by (simp add: matchAt_def betweenFirstTags_def lazyGroup_firstIndexOf)
    qed
  next
    case False
    then have "matchAt (c # cs) = None" by (simp add: matchAt_def)
    with False Cons.IH show ?thesis
      by (auto simp: betweenFirstTags_def Let_def split: option.splits)
  qed
qed

lemma extract_example:
  "extractCompletion ''noise <COMPLETION>foo(bar)</COMPLETION> trailing'' = ''foo(bar)''"
  by (simp add: extractCompletion_def matchAt_def OPEN_TAG_def CLOSE_TAG_def)

text \<open>
  C4. For every response text, what the pattern match extracts is what stands
  between the first opening tag and the first closing tag after it, and the empty
  string when there is no such pair; the response
  \<^verbatim>\<open>noise <COMPLETION>foo(bar)</COMPLETION> trailing\<close> gives \<^verbatim>\<open>foo(bar)\<close>, and a response
  without an opening tag, or without a closing tag after the first opening tag,
  gives the empty string.
\<close>

theorem extraction_is_first_match:
  "extractCompletion s = extractSpec s
   \<and> extractCompletion ''noise <COMPLETION>foo(bar)</COMPLETION> trailing'' = ''foo(bar)''
   \<and> (betweenFirstTags s = None \<longrightarrow> extractCompletion s = [])"
  by (simp add: extract_example)
     (simp add: extractCompletion_def extractSpec_def regexSearch_between)

theorem extraction_is_first_match_witness:
  "extractCompletion ''a<COMPLETION>b<COMPLETION>c</COMPLETION>d</COMPLETION>''
     = ''b<COMPLETION>c''
   \<and> betweenFirstTags ''<COMPLETION>never closed'' = None
   \<and> extractCompletion ''<COMPLETION>never closed'' = []"
proof -
  have a: "extractSpec ''a<COMPLETION>b<COMPLETION>c</COMPLETION>d</COMPLETION>''
             = ''b<COMPLETION>c''"
    by (simp add: extractSpec_def betweenFirstTags_def OPEN_TAG_def CLOSE_TAG_def)
  have b: "betweenFirstTags ''<COMPLETION>never closed'' = None"
    by (simp add: betweenFirstTags_def OPEN_TAG_def CLOSE_TAG_def)
  have c: "extractCompletion ''a<COMPLETION>b<COMPLETION>c</COMPLETION>d</COMPLETION>''
             = ''b<COMPLETION>c''"
    using extraction_is_first_match
            [of "''a<COMPLETION>b<COMPLETION>c</COMPLETION>d</COMPLETION>''"] a
    by metis
  have d: "extractCompletion ''<COMPLETION>never closed'' = []"
    using extraction_is_first_match [of "''<COMPLETION>never closed''"] b by metis
  from b c d show ?thesis by blast
qed

subsection \<open>The prompt\<close>

lemma substring_zero: "substring s 0 b = take (clampIndex s b) s"
  by (simp add: substring_def clampIndex_def Let_def)

lemma substring_zero_nat: "substring s 0 (int n) = take n s"
  by (cases "n \<le> length s") (simp_all add: substring_zero clampIndex_def min_def)

lemma substringFrom_zero: "substringFrom s 0 = s"
  by (simp add: substringFrom_def clampIndex_def)

lemma substring_split: "substring s 0 b @ substringFrom s b = s"
  by (simp add: substring_zero substringFrom_def)

lemma promptPrefix_suffix: "promptPrefix options @ promptSuffix options = prompt options"
  by (simp add: promptPrefix_def promptSuffix_def contextPrefix_def lastLine_def
        substring_split)

text \<open>
  \<^verbatim>\<open>lastIndexOf\<close> of the line break: the position of the last one, and \<open>-1\<close> when
  there is none.
\<close>

lemma filter_rev_upt_Nil: "filter P (rev [0..<n]) = [] \<longleftrightarrow> (\<forall>i<n. \<not> P i)"
  by (auto simp: filter_empty_conv)

lemma filter_rev_upt_hd:
  "k < n \<Longrightarrow> P k \<Longrightarrow> (\<And>j. k < j \<Longrightarrow> j < n \<Longrightarrow> \<not> P j) \<Longrightarrow>
     \<exists>rest. filter P (rev [0..<n]) = k # rest"
proof (induction n)
  case 0
  then show ?case by simp
next
  case (Suc n)
  show ?case
  proof (cases "k = n")
    case True
    with Suc.prems show ?thesis by simp
  next
    case False
    with Suc.prems have kn: "k < n" by simp
    have "\<not> P n" using Suc.prems(3)[of n] kn by simp
    moreover from Suc.IH[OF kn Suc.prems(2)] Suc.prems(3)
    obtain rest where "filter P (rev [0..<n]) = k # rest" by auto
    ultimately show ?thesis by simp
  qed
qed

lemma prefix_newline_drop:
  "prefix [NEWLINE] (drop j l) \<Longrightarrow> NEWLINE \<in> set l"
proof -
  assume "prefix [NEWLINE] (drop j l)"
  then obtain zs where "drop j l = NEWLINE # zs" by (auto simp: prefix_def)
  then have "NEWLINE \<in> set (drop j l)" by simp
  then show ?thesis by (rule in_set_dropD)
qed

lemma lastIndexOf_no_newline:
  assumes "NEWLINE \<notin> set l"
  shows "lastIndexOf l [NEWLINE] = - 1"
proof -
  have "filter (\<lambda>i. prefix [NEWLINE] (drop i l)) (rev [0..<Suc (length l)]) = []"
    unfolding filter_rev_upt_Nil using assms prefix_newline_drop by blast
  then show ?thesis by (simp add: lastIndexOf_def)
qed

lemma lastIndexOf_last_newline:
  assumes "NEWLINE \<notin> set l"
  shows "lastIndexOf (b @ NEWLINE # l) [NEWLINE] = int (length b)"
proof -
  let ?s = "b @ NEWLINE # l"
  let ?P = "\<lambda>i. prefix [NEWLINE] (drop i ?s)"
  have k: "length b < Suc (length ?s)" by simp
  have pk: "?P (length b)" by simp
  have later: "\<not> ?P j" if "length b < j" for j
  proof
    assume "?P j"
    moreover from that obtain m where "j = length b + Suc m"
      by (metis less_iff_Suc_add add_Suc_right)
    ultimately have "prefix [NEWLINE] (drop m l)" by simp
    with assms prefix_newline_drop show False by blast
  qed
  from filter_rev_upt_hd[of "length b" "Suc (length ?s)" ?P, OF k pk] later
  obtain rest where "filter ?P (rev [0..<Suc (length ?s)]) = length b # rest" by blast
  then show ?thesis by (simp add: lastIndexOf_def)
qed

lemma split_at_cursor:
  assumes nl: "NEWLINE \<notin> set l"
    and p: "prompt options = before @ l"
    and b: "before = [] \<or> last before = NEWLINE"
    and c: "cursorPosition options = int c"
  shows "promptPrefix options = before @ take c l \<and> promptSuffix options = drop c l"
proof -
  have idx: "lastLineBreakIndex options + 1 = int (length before)"
  proof (cases "before = []")
    case True
    with p nl show ?thesis by (simp add: lastLineBreakIndex_def lastIndexOf_no_newline)
  next
    case False
    with b obtain b' where "before = b' @ [NEWLINE]"
      by (metis append_butlast_last_id)
    with p nl show ?thesis
      by (simp add: lastLineBreakIndex_def lastIndexOf_last_newline)
  qed
  have cp: "contextPrefix options = before"
    unfolding contextPrefix_def idx p by (simp add: substring_zero_nat)
  have ll: "lastLine options = l"
    unfolding lastLine_def idx p by (simp add: substringFrom_def clampIndex_def)
  have "substringFrom l (int c) = drop c l"
    by (cases "c \<le> length l") (simp_all add: substringFrom_def clampIndex_def min_def)
  then show ?thesis
    by (simp add: promptPrefix_def promptSuffix_def cp ll c substring_zero_nat)
qed

text \<open>
  C9. The prompt sent to the backend is the instruction template, then the query
  block (the text before the hole, the sentinel \<^verbatim>\<open>{{FILL_HERE}}\<close>, the text after the
  hole), then the closing instruction that ends with the opening completion tag.
  The hole is in the last line of the context string, at the cursor offset: when
  the context is \<open>before @ l\<close>, with \<open>l\<close> free of line breaks and \<open>before\<close> empty or
  ending in a line break, the text before the hole is \<open>before\<close> followed by the first
  \<open>c\<close> characters of \<open>l\<close>, and the text after it is the rest of \<open>l\<close>. The two texts
  make up the context string; the prompt is what the backend is called with; and
  it depends on the context string and the cursor offset only.
\<close>

theorem fullPrompt_layout:
  "fullPrompt options =
     SYSTEM_MSG
     @ [NEWLINE, NEWLINE] @ ''<QUERY>'' @ [NEWLINE]
     @ promptPrefix options @ ''{{FILL_HERE}}'' @ promptSuffix options
     @ [NEWLINE] @ ''</QUERY>'' @ [NEWLINE]
     @ ''TASK: Fill the {{FILL_HERE}} hole. Answer only with the CORRECT completion, and NOTHING ELSE. Do it now.''
     @ [NEWLINE] @ ''<COMPLETION>''
   \<and> (NEWLINE \<notin> set l \<and> prompt options = before @ l
        \<and> (before = [] \<or> last before = NEWLINE) \<and> cursorPosition options = int c
        \<longrightarrow> promptPrefix options = before @ take c l \<and> promptSuffix options = drop c l)
   \<and> promptPrefix options @ promptSuffix options = prompt options
   \<and> completionStream be options = be completionHandler HOLE_FILLER (fullPrompt options)
   \<and> (prompt options = prompt options' \<and> cursorPosition options = cursorPosition options'
        \<longrightarrow> fullPrompt options = fullPrompt options')"
proof -
  have a: "fullPrompt options =
     SYSTEM_MSG
     @ [NEWLINE, NEWLINE] @ ''<QUERY>'' @ [NEWLINE]
     @ promptPrefix options @ ''{{FILL_HERE}}'' @ promptSuffix options
     @ [NEWLINE] @ ''</QUERY>'' @ [NEWLINE]
     @ ''TASK: Fill the {{FILL_HERE}} hole. Answer only with the CORRECT completion, and NOTHING ELSE. Do it now.''
     @ [NEWLINE] @ ''<COMPLETION>''"
    by (simp add: fullPrompt_def QUERY_OPEN_def FILL_HERE_def CLOSING_INSTRUCTION_def)
  have e: "fullPrompt options = fullPrompt options'"
    if "prompt options = prompt options'" "cursorPosition options = cursorPosition options'"
    using that
    by (simp add: fullPrompt_def promptPrefix_def promptSuffix_def contextPrefix_def
          lastLine_def lastLineBreakIndex_def)
  from a e split_at_cursor[of l options before c] promptPrefix_suffix[of options]
  show ?thesis by (simp add: completionStream_def)
qed

theorem fullPrompt_layout_witness:
  "promptPrefix exampleOptions = ''let a = 1;'' @ [NEWLINE] @ ''foo(''
   \<and> promptSuffix exampleOptions = ''a, b)''
   \<and> fullPrompt exampleOptions = fullPrompt (exampleOptions\<lparr>maxTokens := 7\<rparr>)"
proof -
  have h: "NEWLINE \<notin> set ''foo(a, b)''
        \<and> prompt exampleOptions = (''let a = 1;'' @ [NEWLINE]) @ ''foo(a, b)''
        \<and> (''let a = 1;'' @ [NEWLINE] = [] \<or> last (''let a = 1;'' @ [NEWLINE]) = NEWLINE)
        \<and> cursorPosition exampleOptions = int 4"
    by (simp add: exampleOptions_def NEWLINE_def)
  have g: "prompt exampleOptions = prompt (exampleOptions\<lparr>maxTokens := 7\<rparr>)
        \<and> cursorPosition exampleOptions = cursorPosition (exampleOptions\<lparr>maxTokens := 7\<rparr>)"
    by simp
  from fullPrompt_layout
         [where options = exampleOptions and l = "''foo(a, b)''"
            and before = "''let a = 1;'' @ [NEWLINE]" and c = 4
            and options' = "exampleOptions\<lparr>maxTokens := 7\<rparr>" and be = failingBackend]
       h g
  have "promptPrefix exampleOptions = (''let a = 1;'' @ [NEWLINE]) @ take 4 ''foo(a, b)''"
    and "promptSuffix exampleOptions = drop 4 ''foo(a, b)''"
    and "fullPrompt exampleOptions = fullPrompt (exampleOptions\<lparr>maxTokens := 7\<rparr>)"
    by blast+
  then show ?thesis by simp
qed

subsection \<open>getCompletion\<close>

text \<open>
  Draining: a stream with a step that raises (a failing step, or a primitive
  string, on which \<^verbatim>\<open>'text' in chunk\<close> raises) makes the loop raise; any other stream
  is read to its end and the texts of its chunks are accumulated in order.
\<close>

lemma consumeStream_fails:
  "list_ex failsAt stream \<Longrightarrow> \<exists>err. consumeStream acc stream = Inl err"
  by (induction acc stream rule: consumeStream.induct) simp_all

lemma consumeStream_ends:
  "\<not> list_ex failsAt stream \<Longrightarrow>
     consumeStream acc stream = Inr (acc @ concat (map stepText stream))"
  by (induction acc stream rule: consumeStream.induct) simp_all

lemma drainAndExtract_singleton: "\<exists>r. drainAndExtract stream = [r]"
  by (simp add: drainAndExtract_def split: sum.splits)

lemma getCompletion_singleton: "getCompletion be options = Inr rs \<Longrightarrow> \<exists>r. rs = [r]"
  using drainAndExtract_singleton by (auto simp: getCompletion_def split: sum.splits)

text \<open>
  C3, as amended. Whenever building the handler and calling \<^verbatim>\<open>createMessage\<close> give
  a stream, \<^verbatim>\<open>getCompletion\<close> is fulfilled with a sequence of exactly one result and
  propagates nothing. When a step of the stream raises while it is drained, that
  result has the empty text and the detail \<^verbatim>\<open>Error generating completion\<close>; when
  the stream ends, it has the text extracted from the accumulated chunks and the
  detail \<^verbatim>\<open>AI Completion\<close>.
\<close>

theorem getCompletion_drains_to_one_result:
  "completionStream be options = Inr stream \<longrightarrow>
     (\<exists>r. getCompletion be options = Inr [r])
     \<and> (list_ex failsAt stream \<longrightarrow>
          getCompletion be options
          = Inr [\<lparr>resultText = [], detail = Some ''Error generating completion''\<rparr>])
     \<and> (\<not> list_ex failsAt stream \<longrightarrow>
          getCompletion be options
          = Inr [\<lparr>resultText = extractCompletion (concat (map stepText stream)),
                   detail = Some ''AI Completion''\<rparr>])"
proof
  assume s: "completionStream be options = Inr stream"
  then have g: "getCompletion be options = Inr (drainAndExtract stream)"
    by (simp add: getCompletion_def)
  have a: "drainAndExtract stream
           = [\<lparr>resultText = [], detail = Some ''Error generating completion''\<rparr>]"
    if "list_ex failsAt stream"
    using consumeStream_fails[OF that, of "[]"] by (auto simp: drainAndExtract_def)
  have b: "drainAndExtract stream
           = [\<lparr>resultText = extractCompletion (concat (map stepText stream)),
                detail = Some ''AI Completion''\<rparr>]"
    if "\<not> list_ex failsAt stream"
    using consumeStream_ends[OF that, of "[]"] by (simp add: drainAndExtract_def)
  from drainAndExtract_singleton[of stream] g a b
  show "(\<exists>r. getCompletion be options = Inr [r])
     \<and> (list_ex failsAt stream \<longrightarrow>
          getCompletion be options
          = Inr [\<lparr>resultText = [], detail = Some ''Error generating completion''\<rparr>])
     \<and> (\<not> list_ex failsAt stream \<longrightarrow>
          getCompletion be options
          = Inr [\<lparr>resultText = extractCompletion (concat (map stepText stream)),
                   detail = Some ''AI Completion''\<rparr>])"
    by auto
qed

theorem getCompletion_drains_to_one_result_witness:
  "completionStream failingBackend exampleOptions
     = Inr [Yield (TextChunk ''<COMPLETION>a''), Throw]
   \<and> getCompletion failingBackend exampleOptions
       = Inr [\<lparr>resultText = [], detail = Some ''Error generating completion''\<rparr>]
   \<and> completionStream (answering ''x<COMPLETION>bar</COMPLETION>'') exampleOptions
       = Inr [Yield (TextChunk ''x<COMPLETION>bar</COMPLETION>'')]
   \<and> getCompletion (answering ''x<COMPLETION>bar</COMPLETION>'') exampleOptions
       = Inr [\<lparr>resultText = ''bar'', detail = Some ''AI Completion''\<rparr>]"
proof -
  have a: "completionStream failingBackend exampleOptions
           = Inr [Yield (TextChunk ''<COMPLETION>a''), Throw]"
    by (simp add: completionStream_def failingBackend_def)
  have fa: "list_ex failsAt [Yield (TextChunk ''<COMPLETION>a''), Throw]" by simp
  have b: "completionStream (answering ''x<COMPLETION>bar</COMPLETION>'') exampleOptions
           = Inr [Yield (TextChunk ''x<COMPLETION>bar</COMPLETION>'')]"
    by (simp add: completionStream_def answering_def)
  have fb: "\<not> list_ex failsAt [Yield (TextChunk ''x<COMPLETION>bar</COMPLETION>'')]" by simp
  have x: "extractCompletion
             (concat (map stepText [Yield (TextChunk ''x<COMPLETION>bar</COMPLETION>'')]))
           = ''bar''"
    by code_simp
  from getCompletion_drains_to_one_result
         [of failingBackend exampleOptions "[Yield (TextChunk ''<COMPLETION>a''), Throw]"]
       a fa
  have ra: "getCompletion failingBackend exampleOptions
       = Inr [\<lparr>resultText = [], detail = Some ''Error generating completion''\<rparr>]"
    by blast
  from getCompletion_drains_to_one_result
         [of "answering ''x<COMPLETION>bar</COMPLETION>''" exampleOptions
             "[Yield (TextChunk ''x<COMPLETION>bar</COMPLETION>'')]"]
       b fb
  have rb: "getCompletion (answering ''x<COMPLETION>bar</COMPLETION>'') exampleOptions
       = Inr [\<lparr>resultText = extractCompletion
                (concat (map stepText [Yield (TextChunk ''x<COMPLETION>bar</COMPLETION>'')])),
              detail = Some ''AI Completion''\<rparr>]"
    by blast
  from a b ra rb x show ?thesis by simp
qed

text \<open>
  C3 as stated fails: \<^verbatim>\<open>buildApiHandler\<close> and \<^verbatim>\<open>handler.createMessage\<close> are called
  before the \<^verbatim>\<open>try\<close> block, so an error raised there is not turned into a result;
  the promise is rejected with it.
\<close>

theorem getCompletion_rejects_counterexample:
  "completionStream refusingBackend exampleOptions = Inl InvocationError
   \<and> getCompletion refusingBackend exampleOptions = Inl InvocationError"
  by (simp add: getCompletion_def completionStream_def refusingBackend_def)

section \<open>Properties of the provider\<close>

subsection \<open>The context window\<close>

lemma windowStart_le: "windowStart p \<le> line p"
  by (simp add: windowStart_def)

lemma windowStart_eq_line: "windowStart p = line p \<longleftrightarrow> line p = 0"
  by (auto simp: windowStart_def)

lemma getContextRange_eq:
  "getContextRange d p
   = \<lparr>rangeStart = \<lparr>line = windowStart p, character = 0\<rparr>, rangeEnd = p\<rparr>"
  using windowStart_le[of p]
  by (auto simp: getContextRange_def Let_def newRange_def isBefore_def windowStart_def)

lemma validatePosition_valid:
  "line p < lineCount d \<Longrightarrow> character p \<le> length (lines d ! line p) \<Longrightarrow>
     validatePosition d p = p"
  by (simp add: validatePosition_def min_def)

lemma validatePosition_start:
  "n < lineCount d \<Longrightarrow>
     validatePosition d \<lparr>line = n, character = 0\<rparr> = \<lparr>line = n, character = 0\<rparr>"
  by (simp add: validatePosition_def)

lemma getText_window:
  assumes v: "line p < lineCount d" and c: "character p \<le> length (lines d ! line p)"
  shows "getText d (getContextRange d p)
         = joinWith (eol d) (map (\<lambda>i. lines d ! i) [windowStart p..<line p]
                             @ [take (character p) (lines d ! line p)])"
proof -
  have ws: "windowStart p < lineCount d" using windowStart_le[of p] v by simp
  have nz: "lineCount d \<noteq> 0" using v by simp
  show ?thesis
  proof (cases "line p = 0")
    case True
    then have w0: "windowStart p = 0" by (simp add: windowStart_def)
    show ?thesis
    proof (cases "character p = 0")
      case True
      with \<open>line p = 0\<close> have "p = \<lparr>line = 0, character = 0\<rparr>" by simp
      with w0 v show ?thesis
        by (simp add: getText_def getContextRange_eq validatePosition_start Let_def)
    next
      case False
      then have ne: "\<lparr>line = 0, character = 0\<rparr> \<noteq> p" by auto
      with \<open>line p = 0\<close> w0 v c nz show ?thesis
        by (simp add: getText_def getContextRange_eq validatePosition_start
              validatePosition_valid Let_def substring_zero_nat)
    qed
  next
    case False
    then have lt: "windowStart p < line p"
      using windowStart_le[of p] windowStart_eq_line[of p] by linarith
    have ne: "\<lparr>line = windowStart p, character = 0\<rparr> \<noteq> p"
    proof
      assume "\<lparr>line = windowStart p, character = 0\<rparr> = p"
      then have "line \<lparr>line = windowStart p, character = 0\<rparr> = line p" by simp
      with lt show False by simp
    qed
    have upt: "[windowStart p..<line p] = windowStart p # [Suc (windowStart p)..<line p]"
      using lt by (simp add: upt_conv_Cons)
    from lt ne v c nz ws show ?thesis
      by (simp add: getText_def getContextRange_eq validatePosition_start
            validatePosition_valid Let_def substring_zero_nat substringFrom_zero upt)
  qed
qed

text \<open>
  C8. For a cursor on a line of the document and within that line, the range
  starts at character 0 of line \<open>max(0, line - 3)\<close> and ends at the cursor, and the
  text taken from it is the lines from there up to the line before the cursor,
  followed by the cursor line cut at the cursor, joined by the line ending. On
  line 0 it is the cut first line alone.
\<close>

theorem context_window_bounds:
  assumes "line p < lineCount d" and "character p \<le> length (lines d ! line p)"
  shows "getContextRange d p
           = \<lparr>rangeStart = \<lparr>line = nat (max 0 (int (line p) - 3)), character = 0\<rparr>,
              rangeEnd = p\<rparr>
         \<and> getText d (getContextRange d p)
           = joinWith (eol d)
               (map (\<lambda>i. lines d ! i) [nat (max 0 (int (line p) - 3))..<line p]
                @ [take (character p) (lines d ! line p)])
         \<and> (line p = 0 \<longrightarrow>
              getText d (getContextRange d p) = take (character p) (lines d ! 0))"
  using getText_window[OF assms] getContextRange_eq[of d p]
  by (auto simp: windowStart_def)

theorem context_window_bounds_witness:
  "getContextRange fiveLines \<lparr>line = 4, character = 6\<rparr>
     = \<lparr>rangeStart = \<lparr>line = 1, character = 0\<rparr>, rangeEnd = \<lparr>line = 4, character = 6\<rparr>\<rparr>
   \<and> getText fiveLines (getContextRange fiveLines \<lparr>line = 4, character = 6\<rparr>)
     = ''l1 abc'' @ [NEWLINE] @ [NEWLINE] @ ''l3'' @ [NEWLINE] @ ''  foo(''
   \<and> getText fiveLines (getContextRange fiveLines \<lparr>line = 0, character = 1\<rparr>) = ''l''"
proof -
  have a: "line \<lparr>line = 4, character = 6\<rparr> < lineCount fiveLines"
    and b: "character \<lparr>line = 4, character = 6\<rparr>
            \<le> length (lines fiveLines ! line \<lparr>line = 4, character = 6\<rparr>)"
    and c: "line \<lparr>line = 0, character = 1\<rparr> < lineCount fiveLines"
    and d: "character \<lparr>line = 0, character = 1\<rparr>
            \<le> length (lines fiveLines ! line \<lparr>line = 0, character = 1\<rparr>)"
    by (simp_all add: fiveLines_def lineCount_def)
  have u: "[1..<4] = [1, 2, 3::nat]" by (simp add: upt_rec)
  have r: "getContextRange fiveLines \<lparr>line = 4, character = 6\<rparr>
           = \<lparr>rangeStart = \<lparr>line = 1, character = 0\<rparr>,
              rangeEnd = \<lparr>line = 4, character = 6\<rparr>\<rparr>"
    using context_window_bounds [OF a b, THEN conjunct1] by simp
  have t: "getText fiveLines (getContextRange fiveLines \<lparr>line = 4, character = 6\<rparr>)
           = ''l1 abc'' @ [NEWLINE] @ [NEWLINE] @ ''l3'' @ [NEWLINE] @ ''  foo(''"
    using context_window_bounds [OF a b, THEN conjunct2, THEN conjunct1] u
    by (simp add: fiveLines_def)
  have z: "getText fiveLines (getContextRange fiveLines \<lparr>line = 0, character = 1\<rparr>) = ''l''"
    using context_window_bounds [OF c d, THEN conjunct2, THEN conjunct2]
    by (simp add: fiveLines_def)
  from r t z show ?thesis by blast
qed

subsection \<open>The ways a call returns\<close>

lemma trimmedLines_total:
  "(\<And>i. i \<in> set ns \<Longrightarrow> i < lineCount d) \<Longrightarrow> \<exists>ts. trimmedLines d ns = Inr ts"
proof (induction ns)
  case Nil
  then show ?case by simp
next
  case (Cons n ns)
  then obtain ts where "trimmedLines d ns = Inr ts" by auto
  moreover have "n < lineCount d" using Cons.prems by simp
  ultimately show ?case by (simp add: lineAt_def)
qed

lemma isInComment_total: "line p < lineCount d \<Longrightarrow> \<exists>b. isInComment d p = Inr b"
  by (auto simp: isInComment_def lineAt_def Let_def)

lemma lexicalGuards_total: "line p < lineCount d \<Longrightarrow> \<exists>b. lexicalGuards d p lp = Inr b"
  using isInComment_total[of p d] by (auto simp: lexicalGuards_def split: bool.splits)

lemma shouldTriggerCompletion_total:
  assumes "line p < lineCount d"
  shows "\<exists>b. shouldTriggerCompletion s now d p lp = Inr b"
proof -
  have "\<And>i. i \<in> set [windowStart p..<line p] \<Longrightarrow> i < lineCount d" using assms by simp
  from trimmedLines_total[OF this] obtain ts where "trimmedLines d [windowStart p..<line p] = Inr ts"
    by blast
  with lexicalGuards_total[OF assms, of lp] show ?thesis
    by (auto simp: shouldTriggerCompletion_def)
qed

lemma fingerprint_SomeD:
  "fingerprint e = Some f \<Longrightarrow>
     line (position e) < lineCount (document e)
     \<and> lineAt (document e) (line (position e)) = Inr (lines (document e) ! line (position e))
     \<and> f = \<lparr>inputLine = line (position e), inputCharacter = character (position e),
            inputText = substring (lines (document e) ! line (position e)) 0
                          (int (character (position e)))\<rparr>"
  by (auto simp: fingerprint_def lineAt_def split: if_splits)

lemma sameAsLastInput_iff: "sameAsLastInput s f \<longleftrightarrow> lastInput s = Some f"
  by (auto simp: sameAsLastInput_def split: option.splits)

lemma provide_replay:
  assumes "\<not> deniedOnEntry e" and "fingerprint e = Some f" and "lastInput s = Some f"
  shows "provideInlineCompletionItems_with client s e
         = Inr \<lparr>returned = lastCompetionList s, state = s, backendCalls = []\<rparr>"
  using assms fingerprint_SomeD[OF assms(2)]
  by (simp add: provideInlineCompletionItems_with_def Let_def sameAsLastInput_iff)

lemma requestCompletion_cases:
  "(backendCalls (requestCompletion client s e) = [] \<and> returned (requestCompletion client s e) = None
      \<and> state (requestCompletion client s e) = s)
   \<or> (\<exists>req. backendCalls (requestCompletion client s e)
               = [\<lparr>request = req, response = client (backend e) req\<rparr>]
            \<and> ((fulfilled (client (backend e) req) = [] \<and> returned (requestCompletion client s e) = None
                   \<and> state (requestCompletion client s e) = s)
               \<or> (fulfilled (client (backend e) req) \<noteq> []
                   \<and> returned (requestCompletion client s e)
                       = Some (completionList (position e) (fulfilled (client (backend e) req)))
                   \<and> state (requestCompletion client s e)
                       = recordCompletions s (responseClock e) (position e) (fulfilled (client (backend e) req)))))"
  by (cases "visibleInstance e")
     (auto simp: requestCompletion_def Let_def fulfilled_def split: sum.splits)

text \<open>
  Every way the method returns: without a backend call, with the cached list or
  nothing and the state as it was but for the fingerprint; or after one backend
  call, with nothing when the client returned no result and else with the new list
  recorded.
\<close>

lemma provide_cases:
  assumes "provideInlineCompletionItems_with client s e = Inr out"
  shows "(backendCalls out = [] \<and> (returned out = None \<or> returned out = lastCompetionList s)
            \<and> (state out = s \<or> (\<exists>f. fingerprint e = Some f \<and> state out = s\<lparr>lastInput := Some f\<rparr>)))
         \<or> (\<exists>f req. fingerprint e = Some f \<and> \<not> deniedOnEntry e
               \<and> backendCalls out = [\<lparr>request = req, response = client (backend e) req\<rparr>]
               \<and> ((fulfilled (client (backend e) req) = [] \<and> returned out = None
                      \<and> state out = s\<lparr>lastInput := Some f\<rparr>)
                  \<or> (fulfilled (client (backend e) req) \<noteq> []
                      \<and> returned out = Some (completionList (position e) (fulfilled (client (backend e) req)))
                      \<and> state out = recordCompletions (s\<lparr>lastInput := Some f\<rparr>) (responseClock e)
                                      (position e) (fulfilled (client (backend e) req)))))"
proof (cases "deniedOnEntry e")
  case True
  with assms show ?thesis by (auto simp: provideInlineCompletionItems_with_def)
next
  case nd: False
  show ?thesis
  proof (cases "lineAt (document e) (line (position e))")
    case (Inl err)
    with assms nd show ?thesis by (simp add: provideInlineCompletionItems_with_def)
  next
    case (Inr currentLine)
    let ?f = "\<lparr>inputLine = line (position e), inputCharacter = character (position e),
            inputText = substring currentLine 0 (int (character (position e)))\<rparr>"
    let ?s1 = "s\<lparr>lastInput := Some ?f\<rparr>"
    have fp: "fingerprint e = Some ?f" using Inr by (simp add: fingerprint_def)
    show ?thesis
    proof (cases "sameAsLastInput s ?f")
      case True
      with assms nd Inr show ?thesis
        by (auto simp: provideInlineCompletionItems_with_def Let_def)
    next
      case nsame: False
      show ?thesis
      proof (cases "sameAsLastCompletion ?s1 currentLine")
        case True
        with assms nd Inr nsame fp show ?thesis
          by (auto simp: provideInlineCompletionItems_with_def Let_def)
      next
        case ndup: False
        from assms nd Inr nsame ndup
        have *: "(case shouldTriggerCompletion ?s1 (gateClock e) (document e) (position e)
                         (substring currentLine 0 (int (character (position e)))) of
                    Inl err \<Rightarrow> Inl (err, ?s1)
                  | Inr False \<Rightarrow> Inr \<lparr>returned = None, state = ?s1, backendCalls = []\<rparr>
                  | Inr True \<Rightarrow> Inr (requestCompletion client ?s1 e)) = Inr out"
          by (simp add: provideInlineCompletionItems_with_def Let_def)
        show ?thesis
        proof (cases "shouldTriggerCompletion ?s1 (gateClock e) (document e) (position e)
                         (substring currentLine 0 (int (character (position e))))")
          case (Inl a)
          with * show ?thesis by simp
        next
          case (Inr b)
          show ?thesis
          proof (cases b)
            case True
            with * Inr have out: "out = requestCompletion client ?s1 e" by simp
            from requestCompletion_cases[of client ?s1 e] show ?thesis
              unfolding out[symmetric] using fp nd by auto
          next
            case False
            with * Inr fp show ?thesis by auto
          qed
        qed
      qed
    qed
  qed
qed

lemma provide_total:
  assumes "fingerprint e = Some f"
  shows "\<exists>out. provideInlineCompletionItems_with client s e = Inr out"
proof -
  from fingerprint_SomeD[OF assms] have v: "line (position e) < lineCount (document e)"
    and l: "lineAt (document e) (line (position e)) = Inr (lines (document e) ! line (position e))"
    by simp_all
  let ?s1 = "s\<lparr>lastInput := Some f\<rparr>"
  from shouldTriggerCompletion_total[OF v] obtain b
    where b: "shouldTriggerCompletion ?s1 (gateClock e) (document e) (position e) (inputText f) = Inr b"
    by blast
  have f: "f = \<lparr>inputLine = line (position e), inputCharacter = character (position e),
            inputText = substring (lines (document e) ! line (position e)) 0
                          (int (character (position e)))\<rparr>"
    using fingerprint_SomeD[OF assms] by simp
  show ?thesis
    unfolding provideInlineCompletionItems_with_def Let_def l
    using b unfolding f by (cases b) simp_all
qed

lemma provide_four_ways:
  assumes "provideInlineCompletionItems_with client s e = Inr out"
  shows "(deniedOnEntry e \<and> out = \<lparr>returned = None, state = s, backendCalls = []\<rparr>)
       \<or> (\<exists>f. \<not> deniedOnEntry e \<and> fingerprint e = Some f \<and> lastInput s = Some f
              \<and> out = \<lparr>returned = lastCompetionList s, state = s, backendCalls = []\<rparr>)
       \<or> (\<exists>f. \<not> deniedOnEntry e \<and> fingerprint e = Some f \<and> lastInput s \<noteq> Some f
              \<and> backendCalls out = [] \<and> state out = s\<lparr>lastInput := Some f\<rparr>
              \<and> (returned out = None \<or> returned out = lastCompetionList s))
       \<or> (\<exists>f req. \<not> deniedOnEntry e \<and> fingerprint e = Some f \<and> lastInput s \<noteq> Some f
              \<and> backendCalls out = [\<lparr>request = req, response = client (backend e) req\<rparr>]
              \<and> ((fulfilled (client (backend e) req) = [] \<and> returned out = None
                     \<and> state out = s\<lparr>lastInput := Some f\<rparr>)
                 \<or> (fulfilled (client (backend e) req) \<noteq> []
                     \<and> returned out = Some (completionList (position e) (fulfilled (client (backend e) req)))
                     \<and> state out = recordCompletions (s\<lparr>lastInput := Some f\<rparr>) (responseClock e)
                                     (position e) (fulfilled (client (backend e) req)))))"
proof (cases "deniedOnEntry e")
  case True
  with assms show ?thesis by (auto simp: provideInlineCompletionItems_with_def)
next
  case nd: False
  show ?thesis
  proof (cases "\<exists>f. fingerprint e = Some f \<and> lastInput s = Some f")
    case True
    then obtain f where f: "fingerprint e = Some f" "lastInput s = Some f" by blast
    from provide_replay[OF nd f, of client] assms f nd show ?thesis by auto
  next
    case nrep: False
    from provide_cases[OF assms] show ?thesis
    proof
      assume a: "backendCalls out = [] \<and> (returned out = None \<or> returned out = lastCompetionList s)
            \<and> (state out = s \<or> (\<exists>f. fingerprint e = Some f \<and> state out = s\<lparr>lastInput := Some f\<rparr>))"
      have "\<exists>f. fingerprint e = Some f \<and> state out = s\<lparr>lastInput := Some f\<rparr>"
      proof (cases "lineAt (document e) (line (position e))")
        case (Inl err)
        with assms nd show ?thesis by (simp add: provideInlineCompletionItems_with_def)
      next
        case (Inr currentLine)
        let ?f = "\<lparr>inputLine = line (position e), inputCharacter = character (position e),
            inputText = substring currentLine 0 (int (character (position e)))\<rparr>"
        have fp: "fingerprint e = Some ?f" using Inr by (simp add: fingerprint_def)
        with nrep have ns: "\<not> sameAsLastInput s ?f" by (simp add: sameAsLastInput_iff)
        from a fp show ?thesis
        proof (cases "state out = s")
          case True
          have "lastInput (state out) = Some ?f"
            using assms nd Inr ns requestCompletion_cases[of client "s\<lparr>lastInput := Some ?f\<rparr>" e]
            by (auto simp: provideInlineCompletionItems_with_def Let_def recordCompletions_def
                split: if_splits sum.splits bool.splits)
          with True fp nrep show ?thesis by simp
        next
          case False
          with a show ?thesis by blast
        qed
      qed
      with a nd nrep show ?thesis by auto
    next
      assume "\<exists>f req. fingerprint e = Some f \<and> \<not> deniedOnEntry e
               \<and> backendCalls out = [\<lparr>request = req, response = client (backend e) req\<rparr>]
               \<and> ((fulfilled (client (backend e) req) = [] \<and> returned out = None
                      \<and> state out = s\<lparr>lastInput := Some f\<rparr>)
                  \<or> (fulfilled (client (backend e) req) \<noteq> []
                      \<and> returned out = Some (completionList (position e) (fulfilled (client (backend e) req)))
                      \<and> state out = recordCompletions (s\<lparr>lastInput := Some f\<rparr>) (responseClock e)
                                      (position e) (fulfilled (client (backend e) req))))"
      with nrep show ?thesis by blast
    qed
  qed
qed

subsection \<open>The example calls\<close>

lemma exampleCall_first:
  "provideInlineCompletionItems initialState exampleCall
   = Inr \<lparr>returned = Some barList, state = stateAfterExample,
          backendCalls = [\<lparr>request = exampleRequest,
                           response = Inr [\<lparr>resultText = ''bar'', detail = Some ''AI Completion''\<rparr>]\<rparr>]\<rparr>"
  by code_simp

lemma exampleCall_fingerprint:
  "fingerprint exampleCall = Some \<lparr>inputLine = 0, inputCharacter = 3, inputText = ''foo''\<rparr>"
  by code_simp

lemma secondCall_fingerprint:
  "fingerprint secondCall = Some \<lparr>inputLine = 0, inputCharacter = 3, inputText = ''foo''\<rparr>"
  by code_simp

lemma exampleCall_not_denied: "\<not> deniedOnEntry exampleCall"
  by code_simp

lemma secondCall_not_denied: "\<not> deniedOnEntry secondCall"
  by code_simp

subsection \<open>Replay of a repeated fingerprint\<close>

text \<open>
  C1, as amended. Two calls in a row with the same fingerprint (line, character, text before
  the cursor), neither of them turned away on entry (cancellation, several
  selections, a selected suggestion that does not fit): the first call returns,
  and the second makes no backend call, leaves the state as it is and returns the
  cached list \<^verbatim>\<open>lastCompetionList\<close> as the first call left it. When the first call
  returned a list, this is that list; when it returned "no suggestion", it is
  whatever an earlier call had cached.
\<close>

theorem duplicate_fingerprint_replays_cache:
  assumes "fingerprint e1 = Some f" and "fingerprint e2 = Some f"
      and "\<not> deniedOnEntry e1" and "\<not> deniedOnEntry e2"
  shows "\<exists>out1. provideInlineCompletionItems s e1 = Inr out1
           \<and> provideInlineCompletionItems (state out1) e2
               = Inr \<lparr>returned = lastCompetionList (state out1), state = state out1,
                      backendCalls = []\<rparr>
           \<and> (returned out1 \<noteq> None \<longrightarrow> lastCompetionList (state out1) = returned out1)"
proof -
  from provide_total[OF assms(1), of getCompletion s] obtain out1
    where out1: "provideInlineCompletionItems_with getCompletion s e1 = Inr out1" by blast
  from provide_four_ways[OF out1] assms(1,3)
  have li: "lastInput (state out1) = Some f"
    and rc: "returned out1 \<noteq> None \<longrightarrow> lastCompetionList (state out1) = returned out1"
    by (auto simp: recordCompletions_def)
  from provide_replay[OF assms(4) assms(2) li, of getCompletion] out1 rc
  show ?thesis by (simp add: provideInlineCompletionItems_def)
qed

theorem duplicate_fingerprint_replays_cache_witness:
  "\<exists>out1. provideInlineCompletionItems initialState exampleCall = Inr out1
     \<and> returned out1 = Some barList
     \<and> provideInlineCompletionItems (state out1) secondCall
         = Inr \<lparr>returned = Some barList, state = state out1, backendCalls = []\<rparr>"
proof -
  from duplicate_fingerprint_replays_cache
         [OF exampleCall_fingerprint secondCall_fingerprint exampleCall_not_denied
             secondCall_not_denied, of initialState]
  obtain out1 where o: "provideInlineCompletionItems initialState exampleCall = Inr out1"
    and r: "provideInlineCompletionItems (state out1) secondCall
            = Inr \<lparr>returned = lastCompetionList (state out1), state = state out1,
                   backendCalls = []\<rparr>"
    and c: "returned out1 \<noteq> None \<longrightarrow> lastCompetionList (state out1) = returned out1"
    by blast
  from o exampleCall_first have "returned out1 = Some barList" by auto
  with o r c show ?thesis by simp
qed

text \<open>
  C1 as stated fails in two ways. A call 100 ms after the last answer, at a new
  cursor position, is denied by the rate limit and returns "no suggestion", and yet
  it records its fingerprint; the same call again is then answered with the list
  cached by the earlier call, which the first of the two neither produced nor
  returned. And a call that finds the cancellation signal raised returns before
  its fingerprint is recorded, so that the next call with the same fingerprint
  and the state unchanged goes to the backend.
\<close>

theorem replay_of_repeated_fingerprint_counterexample:
  "provideInlineCompletionItems stateAfterExample staleCall
     = Inr \<lparr>returned = None,
            state = stateAfterExample
                      \<lparr>lastInput := Some \<lparr>inputLine = 0, inputCharacter = 2, inputText = ''fo''\<rparr>\<rparr>,
            backendCalls = []\<rparr>
   \<and> provideInlineCompletionItems
        (stateAfterExample
           \<lparr>lastInput := Some \<lparr>inputLine = 0, inputCharacter = 2, inputText = ''fo''\<rparr>\<rparr>)
        staleCall
     = Inr \<lparr>returned = Some barList,
            state = stateAfterExample
                      \<lparr>lastInput := Some \<lparr>inputLine = 0, inputCharacter = 2, inputText = ''fo''\<rparr>\<rparr>,
            backendCalls = []\<rparr>
   \<and> provideInlineCompletionItems initialState cancelledFirst
     = Inr \<lparr>returned = None, state = initialState, backendCalls = []\<rparr>
   \<and> fingerprint cancelledFirst = fingerprint exampleCall
   \<and> provideInlineCompletionItems initialState exampleCall
     = Inr \<lparr>returned = Some barList, state = stateAfterExample,
            backendCalls = [\<lparr>request = exampleRequest,
              response = Inr [\<lparr>resultText = ''bar'', detail = Some ''AI Completion''\<rparr>]\<rparr>]\<rparr>"
  by code_simp

subsection \<open>Cancellation\<close>

lemma deniedOnEntry_later: "deniedOnEntry (e\<lparr>cancelledDuringRoundTrip := b\<rparr>) = deniedOnEntry e"
  by (simp add: deniedOnEntry_def split: option.splits)

lemma requestCompletion_later:
  "requestCompletion client s (e\<lparr>cancelledDuringRoundTrip := b\<rparr>) = requestCompletion client s e"
  by (cases "visibleInstance e")
     (simp_all add: requestCompletion_def Let_def cong: sum.case_cong if_cong)

text \<open>
  C7, as amended. A call that finds the cancellation signal raised on entry returns
  "no suggestion", makes no backend call and leaves the session state as it is.
  The signal is read on entry only: whether it is raised later, while the backend
  is awaited, changes nothing of what the call does.
\<close>

theorem cancellation_on_entry_only:
  "(isCancellationRequested e \<longrightarrow>
      provideInlineCompletionItems s e = Inr \<lparr>returned = None, state = s, backendCalls = []\<rparr>)
   \<and> provideInlineCompletionItems s (e\<lparr>cancelledDuringRoundTrip := b\<rparr>)
       = provideInlineCompletionItems s e"
proof -
  have a: "provideInlineCompletionItems s e
           = Inr \<lparr>returned = None, state = s, backendCalls = []\<rparr>"
    if "isCancellationRequested e"
    using that
    by (simp add: provideInlineCompletionItems_def provideInlineCompletionItems_with_def
          deniedOnEntry_def)
  have b: "provideInlineCompletionItems s (e\<lparr>cancelledDuringRoundTrip := b\<rparr>)
           = provideInlineCompletionItems s e"
    by (simp add: provideInlineCompletionItems_def provideInlineCompletionItems_with_def
          deniedOnEntry_later requestCompletion_later Let_def
        cong: if_cong sum.case_cong bool.case_cong)
  from a b show ?thesis by blast
qed

theorem cancellation_on_entry_only_witness:
  "isCancellationRequested cancelledOnEntry
   \<and> provideInlineCompletionItems stateAfterExample cancelledOnEntry
       = Inr \<lparr>returned = None, state = stateAfterExample, backendCalls = []\<rparr>"
proof -
  have "isCancellationRequested cancelledOnEntry" by (simp add: cancelledOnEntry_def)
  with cancellation_on_entry_only [of cancelledOnEntry stateAfterExample] show ?thesis by blast
qed

text \<open>
  C7 as stated fails: a call whose signal is raised during the round trip, after
  the check on entry, returns the list and writes the session state.
\<close>

theorem cancelled_during_round_trip_counterexample:
  "\<not> isCancellationRequested cancelledLater \<and> cancelledDuringRoundTrip cancelledLater
   \<and> provideInlineCompletionItems initialState cancelledLater
       = Inr \<lparr>returned = Some barList, state = stateAfterExample,
              backendCalls = [\<lparr>request = exampleRequest,
                response = Inr [\<lparr>resultText = ''bar'', detail = Some ''AI Completion''\<rparr>]\<rparr>]\<rparr>
   \<and> stateAfterExample \<noteq> initialState"
  by code_simp

subsection \<open>The cached list\<close>

text \<open>
  The two pieces of the method make up the method: a call that is not interrupted
  by another is the first piece followed, when it was suspended, by the
  resumption on the state the first piece left.
\<close>

lemma provide_by_segments:
  "provideInlineCompletionItems_with client s e
   = (case startCall s e of
        Raises err s' \<Rightarrow> Inl (err, s')
      | Returns r s' \<Rightarrow> Inr \<lparr>returned = r, state = s', backendCalls = []\<rparr>
      | Awaits s' \<Rightarrow> Inr (requestCompletion client s' e))"
  by (cases "visibleInstance e")
     (simp_all add: provideInlineCompletionItems_with_def startCall_def requestCompletion_def
        Let_def split: sum.splits bool.splits)

text \<open>
  The first piece writes \<^verbatim>\<open>lastInput\<close> at most. The resumption with the client of
  the source either leaves the state as it finds it, the promise having been
  rejected or no promise made, or records the one result of the call.
\<close>

lemma startCall_cache:
  assumes "startCall s e = Raises err s' \<or> startCall s e = Returns r s'
           \<or> startCall s e = Awaits s'"
  shows "lastCompetionList s' = lastCompetionList s
         \<and> lastCompletionText s' = lastCompletionText s"
  using assms
  by (auto simp: startCall_def Let_def
      split: if_splits sum.splits bool.splits VisibleInstance.splits)

lemma resumed_getCompletion_cases:
  "(state (requestCompletion getCompletion s e) = s
      \<and> latestResults (backendCalls (requestCompletion getCompletion s e)) = None)
   \<or> (\<exists>req r. backendCalls (requestCompletion getCompletion s e)
                 = [\<lparr>request = req, response = Inr [r]\<rparr>]
         \<and> state (requestCompletion getCompletion s e)
             = recordCompletions s (responseClock e) (position e) [r])"
proof (cases "visibleInstance e")
  case NoVisibleInstance
  then show ?thesis by (simp add: requestCompletion_def)
next
  case GetStateFails
  then show ?thesis by (simp add: requestCompletion_def)
next
  case (VisibleState c)
  let ?req = "\<lparr>prompt = getText (document e) (getContextRange (document e) (position e)),
                maxTokens = 50, temperature = 2 / 10,
                cursorPosition = int (character (position e)), configuration = c\<rparr>"
  show ?thesis
  proof (cases "getCompletion (backend e) ?req")
    case (Inl err)
    with VisibleState show ?thesis by (simp add: requestCompletion_def)
  next
    case (Inr rs)
    from getCompletion_singleton[OF Inr] obtain r where "rs = [r]" by blast
    with Inr VisibleState show ?thesis by (simp add: requestCompletion_def)
  qed
qed

lemma backendCalls_at_most_one:
  "backendCalls (requestCompletion client s e) = []
   \<or> (\<exists>c. backendCalls (requestCompletion client s e) = [c])"
  using requestCompletion_cases[of client s e] by auto

lemma latestResults_append:
  "latestResults (cs @ older)
   = (case latestResults cs of None \<Rightarrow> latestResults older | Some rs \<Rightarrow> Some rs)"
  by (induction cs) (simp_all split: sum.splits list.splits)

text \<open>Every event keeps the cache in step with the answers.\<close>

lemma cacheFollowsAnswers_same_cache:
  "lastCompetionList (current \<sigma>') = lastCompetionList (current \<sigma>) \<Longrightarrow>
   lastCompletionText (current \<sigma>') = lastCompletionText (current \<sigma>) \<Longrightarrow>
   latestResults (settledCalls \<sigma>') = latestResults (settledCalls \<sigma>) \<Longrightarrow>
   cacheFollowsAnswers \<sigma>' = cacheFollowsAnswers \<sigma>"
  by (simp add: cacheFollowsAnswers_def split: option.splits)

lemma step_cacheFollowsAnswers:
  assumes "cacheFollowsAnswers \<sigma>"
  shows "cacheFollowsAnswers (step \<sigma> ev)"
proof (cases ev)
  case (Invoke e)
  show ?thesis
  proof (cases "startCall (current \<sigma>) e")
    case (Raises err s')
    with startCall_cache[of "current \<sigma>" e err s'] assms Invoke show ?thesis
      by (simp add: step_def cacheFollowsAnswers_same_cache[of "\<sigma>\<lparr>current := s'\<rparr>" \<sigma>])
  next
    case (Returns r s')
    with startCall_cache[of "current \<sigma>" e _ s' r] assms Invoke show ?thesis
      by (simp add: step_def cacheFollowsAnswers_same_cache[of "\<sigma>\<lparr>current := s'\<rparr>" \<sigma>])
  next
    case (Awaits s')
    with startCall_cache[of "current \<sigma>" e _ s'] assms Invoke show ?thesis
      by (simp add: step_def
            cacheFollowsAnswers_same_cache
              [of "\<sigma>\<lparr>current := s', inFlight := inFlight \<sigma> @ [e]\<rparr>" \<sigma>])
  qed
next
  case (Settle n)
  show ?thesis
  proof (cases "n < length (inFlight \<sigma>)")
    case False
    with assms Settle show ?thesis by (simp add: step_def)
  next
    case True
    let ?out = "requestCompletion getCompletion (current \<sigma>) (inFlight \<sigma> ! n)"
    have st: "step \<sigma> ev
              = \<lparr>current = state ?out,
                 inFlight = take n (inFlight \<sigma>) @ drop (Suc n) (inFlight \<sigma>),
                 settledCalls = rev (backendCalls ?out) @ settledCalls \<sigma>\<rparr>"
      using True Settle by (simp add: step_def Let_def)
    from resumed_getCompletion_cases[of "current \<sigma>" "inFlight \<sigma> ! n"]
    show ?thesis
    proof (elim disjE exE conjE, goal_cases)
      case 1
      then have "latestResults (rev (backendCalls ?out)) = None"
        using backendCalls_at_most_one[of getCompletion "current \<sigma>" "inFlight \<sigma> ! n"]
        by auto
      with 1 assms show ?case
        unfolding st
        using cacheFollowsAnswers_same_cache
                [of "\<lparr>current = state ?out,
                      inFlight = take n (inFlight \<sigma>) @ drop (Suc n) (inFlight \<sigma>),
                      settledCalls = rev (backendCalls ?out) @ settledCalls \<sigma>\<rparr>" \<sigma>]
        by (simp add: latestResults_append)
    next
      case (2 req r)
      then show ?case
        unfolding st
        by (simp add: cacheFollowsAnswers_def recordCompletions_def completionList_def)
    qed
  qed
qed

lemma foldl_step_cacheFollowsAnswers:
  "cacheFollowsAnswers \<sigma> \<Longrightarrow> cacheFollowsAnswers (foldl step \<sigma> evs)"
  by (induction evs arbitrary: \<sigma>) (simp_all add: step_cacheFollowsAnswers)


text \<open>
  C2 as stated fails: the first call of a session, with a backend that fails in
  mid-stream, leaves a cached list of one item although the only backend call
  returned no completion with a text.
\<close>

theorem cache_holds_empty_completion_counterexample:
  "provideInlineCompletionItems initialState failingCall
   = Inr \<lparr>returned = Some \<lparr>items = [\<lparr>insertText = [],
               itemRange = \<lparr>rangeStart = \<lparr>line = 0, character = 3\<rparr>,
                            rangeEnd = \<lparr>line = 0, character = 3\<rparr>\<rparr>\<rparr>]\<rparr>,
          state = \<lparr>lastTriggerTime = 5200,
                   lastInput = Some \<lparr>inputLine = 0, inputCharacter = 3, inputText = ''foo''\<rparr>,
                   lastCompletionText = Some [],
                   lastCompetionList = Some \<lparr>items = [\<lparr>insertText = [],
                     itemRange = \<lparr>rangeStart = \<lparr>line = 0, character = 3\<rparr>,
                                  rangeEnd = \<lparr>line = 0, character = 3\<rparr>\<rparr>\<rparr>]\<rparr>\<rparr>,
          backendCalls = [\<lparr>request = exampleRequest,
             response = Inr [\<lparr>resultText = [],
                              detail = Some ''Error generating completion''\<rparr>]\<rparr>]\<rparr>
   \<and> lastCompetionList (current (runEvents [Invoke failingCall, Settle 0]))
     = Some \<lparr>items = [\<lparr>insertText = [],
               itemRange = \<lparr>rangeStart = \<lparr>line = 0, character = 3\<rparr>,
                            rangeEnd = \<lparr>line = 0, character = 3\<rparr>\<rparr>\<rparr>]\<rparr>
   \<and> settledCalls (runEvents [Invoke failingCall, Settle 0])
     = [\<lparr>request = exampleRequest,
         response = Inr [\<lparr>resultText = [],
                          detail = Some ''Error generating completion''\<rparr>]\<rparr>]"
  by code_simp

text \<open>
  C2, as amended. In every state a session reaches, by calls of the host and
  resumptions of suspended calls in any order, calls in flight included: the cached
  list and \<^verbatim>\<open>lastCompletionText\<close> are set only if some call of \<^verbatim>\<open>getCompletion\<close> has
  been fulfilled with a sequence that is not empty, and then the most recently
  settled of these calls returned exactly one result, whose text (empty or not) is
  the text of the one cached item and \<^verbatim>\<open>lastCompletionText\<close>. And for any completion
  client: a call that is resumed with a promise that was rejected or fulfilled with
  no result returns "no suggestion" and leaves the session state as it finds it;
  the whole call then leaves \<^verbatim>\<open>lastCompetionList\<close> and \<^verbatim>\<open>lastCompletionText\<close> as they
  were.
\<close>

theorem cache_follows_latest_answer:
  "cacheFollowsAnswers (runEvents evs)
   \<and> (list_ex (\<lambda>c. fulfilled (response c) = [])
         (backendCalls (requestCompletion client s e))
      \<longrightarrow> returned (requestCompletion client s e) = None
          \<and> state (requestCompletion client s e) = s)
   \<and> (provideInlineCompletionItems_with client s e = Inr out
        \<and> list_ex (\<lambda>c. fulfilled (response c) = []) (backendCalls out)
      \<longrightarrow> returned out = None
          \<and> lastCompetionList (state out) = lastCompetionList s
          \<and> lastCompletionText (state out) = lastCompletionText s)"
proof -
  have "cacheFollowsAnswers initialSession"
    by (simp add: cacheFollowsAnswers_def initialSession_def initialState_def)
  then have a: "cacheFollowsAnswers (runEvents evs)"
    unfolding runEvents_def by (rule foldl_step_cacheFollowsAnswers)
  have b: "returned (requestCompletion client s e) = None
          \<and> state (requestCompletion client s e) = s"
    if "list_ex (\<lambda>c. fulfilled (response c) = [])
          (backendCalls (requestCompletion client s e))"
    using requestCompletion_cases[of client s e] that by auto
  have c: "returned out = None
          \<and> lastCompetionList (state out) = lastCompetionList s
          \<and> lastCompletionText (state out) = lastCompletionText s"
    if r: "provideInlineCompletionItems_with client s e = Inr out"
      and z: "list_ex (\<lambda>c. fulfilled (response c) = []) (backendCalls out)"
    using provide_four_ways[OF r] z by auto
  from a b c show ?thesis by blast
qed

text \<open>
  Two calls that overlap, the second answered first: the cache holds the answer
  to the second call until the first is answered, and the answer to the first
  from then on, beside the fingerprint of the second.
\<close>

lemma overlapping_calls:
  "current (runEvents [Invoke slowCall, Invoke overtakingCall, Settle 1, Settle 0])
   = \<lparr>lastTriggerTime = 5600,
      lastInput = Some \<lparr>inputLine = 0, inputCharacter = 2, inputText = ''fo''\<rparr>,
      lastCompletionText = Some ''bar'',
      lastCompetionList = Some barList\<rparr>
   \<and> length (inFlight (runEvents [Invoke slowCall, Invoke overtakingCall, Settle 1, Settle 0]))
     = 0
   \<and> settledCalls (runEvents [Invoke slowCall, Invoke overtakingCall, Settle 1, Settle 0])
     = [\<lparr>request = exampleRequest,
         response = Inr [\<lparr>resultText = ''bar'', detail = Some ''AI Completion''\<rparr>]\<rparr>,
        \<lparr>request = exampleRequest\<lparr>prompt := ''fo'', cursorPosition := 2\<rparr>,
         response = Inr [\<lparr>resultText = ''baz'', detail = Some ''AI Completion''\<rparr>]\<rparr>]"
  by code_simp

lemma overtaking_settled_first:
  "current (runEvents [Invoke slowCall, Invoke overtakingCall, Settle 1])
   = \<lparr>lastTriggerTime = 5400,
      lastInput = Some \<lparr>inputLine = 0, inputCharacter = 2, inputText = ''fo''\<rparr>,
      lastCompletionText = Some ''baz'',
      lastCompetionList = Some \<lparr>items = [\<lparr>insertText = ''baz'',
               itemRange = \<lparr>rangeStart = \<lparr>line = 0, character = 2\<rparr>,
                            rangeEnd = \<lparr>line = 0, character = 2\<rparr>\<rparr>\<rparr>]\<rparr>\<rparr>
   \<and> length (inFlight (runEvents [Invoke slowCall, Invoke overtakingCall, Settle 1])) = 1"
  by code_simp

lemma thirdCall_no_result:
  "provideInlineCompletionItems_with noResultClient stateAfterExample thirdCall
   = Inr \<lparr>returned = None,
          state = stateAfterExample
                    \<lparr>lastInput := Some \<lparr>inputLine = 0, inputCharacter = 2, inputText = ''fo''\<rparr>\<rparr>,
          backendCalls = [\<lparr>request = exampleRequest\<lparr>prompt := ''fo'', cursorPosition := 2\<rparr>,
                           response = Inr []\<rparr>]\<rparr>"
  by code_simp

lemma refusedCall_resumed:
  "backendCalls (requestCompletion getCompletion stateAfterExample refusedCall)
   = [\<lparr>request = exampleRequest\<lparr>prompt := ''fo'', cursorPosition := 2\<rparr>,
       response = Inl InvocationError\<rparr>]"
  by code_simp

theorem cache_follows_latest_answer_witness:
  "cacheFollowsAnswers (runEvents [Invoke slowCall, Invoke overtakingCall, Settle 1, Settle 0])
   \<and> lastCompetionList
        (current (runEvents [Invoke slowCall, Invoke overtakingCall, Settle 1, Settle 0]))
       = Some barList
   \<and> latestResults
        (settledCalls (runEvents [Invoke slowCall, Invoke overtakingCall, Settle 1, Settle 0]))
       = Some [\<lparr>resultText = ''bar'', detail = Some ''AI Completion''\<rparr>]
   \<and> list_ex (\<lambda>c. fulfilled (response c) = [])
        (backendCalls (requestCompletion getCompletion stateAfterExample refusedCall))
   \<and> returned (requestCompletion getCompletion stateAfterExample refusedCall) = None
   \<and> state (requestCompletion getCompletion stateAfterExample refusedCall) = stateAfterExample
   \<and> (\<exists>out. provideInlineCompletionItems_with noResultClient stateAfterExample thirdCall = Inr out
         \<and> list_ex (\<lambda>c. fulfilled (response c) = []) (backendCalls out)
         \<and> returned out = None
         \<and> lastCompetionList (state out) = Some barList
         \<and> lastCompletionText (state out) = Some ''bar'')"
proof -
  let ?evs = "[Invoke slowCall, Invoke overtakingCall, Settle 1, Settle 0]"
  let ?out = "\<lparr>returned = None,
          state = stateAfterExample
                    \<lparr>lastInput := Some \<lparr>inputLine = 0, inputCharacter = 2, inputText = ''fo''\<rparr>\<rparr>,
          backendCalls = [\<lparr>request = exampleRequest\<lparr>prompt := ''fo'', cursorPosition := 2\<rparr>,
                           response = Inr []\<rparr>]\<rparr>"
  have z: "list_ex (\<lambda>c. fulfilled (response c) = []) (backendCalls ?out)"
    by (simp add: fulfilled_def)
  have y: "list_ex (\<lambda>c. fulfilled (response c) = [])
             (backendCalls (requestCompletion getCompletion stateAfterExample refusedCall))"
    by (simp add: refusedCall_resumed fulfilled_def)
  note t = cache_follows_latest_answer
             [of ?evs getCompletion stateAfterExample refusedCall]
  note u = cache_follows_latest_answer
             [of ?evs noResultClient stateAfterExample thirdCall ?out]
  from t have a: "cacheFollowsAnswers (runEvents ?evs)" by blast
  from t y have b: "returned (requestCompletion getCompletion stateAfterExample refusedCall) = None
      \<and> state (requestCompletion getCompletion stateAfterExample refusedCall) = stateAfterExample"
    by blast
  from u thirdCall_no_result z
  have c: "returned ?out = None
         \<and> lastCompetionList (state ?out) = lastCompetionList stateAfterExample
         \<and> lastCompletionText (state ?out) = lastCompletionText stateAfterExample"
    by blast
  have d: "lastCompetionList (current (runEvents ?evs)) = Some barList
     \<and> latestResults (settledCalls (runEvents ?evs))
       = Some [\<lparr>resultText = ''bar'', detail = Some ''AI Completion''\<rparr>]"
    by code_simp
  from c thirdCall_no_result z
  have e: "\<exists>out. provideInlineCompletionItems_with noResultClient stateAfterExample thirdCall = Inr out
         \<and> list_ex (\<lambda>c. fulfilled (response c) = []) (backendCalls out)
         \<and> returned out = None
         \<and> lastCompetionList (state out) = Some barList
         \<and> lastCompletionText (state out) = Some ''bar''"
    by (auto simp: stateAfterExample_def)
  from a b y d e show ?thesis by blast
qed

subsection \<open>The rate limit\<close>

text \<open>
  In the provider of src/services/completion the rate limit is the first test of
  \<^verbatim>\<open>shouldTriggerCompletion\<close>: a call that passed the checks before it and comes less than
  \<open>TRIGGER_DELAY\<close> after \<^verbatim>\<open>lastTriggerTime\<close> returns "no suggestion" without a backend
  call; one that comes later, with text before the cursor and a visible provider,
  makes its backend call.
\<close>

lemma rate_limit_denies:
  assumes "\<not> deniedOnEntry e" and "fingerprint e = Some f" and "lastInput s \<noteq> Some f"
    and "\<not> sameAsLastCompletion (s\<lparr>lastInput := Some f\<rparr>) (lines (document e) ! line (position e))"
    and "gateClock e - lastTriggerTime s < TRIGGER_DELAY"
  shows "provideInlineCompletionItems_with client s e
         = Inr \<lparr>returned = None, state = s\<lparr>lastInput := Some f\<rparr>, backendCalls = []\<rparr>"
  using assms fingerprint_SomeD[OF assms(2)]
  by (simp add: provideInlineCompletionItems_with_def Let_def sameAsLastInput_iff
        shouldTriggerCompletion_def)

lemma rate_limit_passes:
  assumes "\<not> deniedOnEntry e" and "fingerprint e = Some f" and "lastInput s \<noteq> Some f"
    and "\<not> sameAsLastCompletion (s\<lparr>lastInput := Some f\<rparr>) (lines (document e) ! line (position e))"
    and "gateClock e - lastTriggerTime s \<ge> TRIGGER_DELAY"
    and "trim (inputText f) \<noteq> []"
    and "visibleInstance e = VisibleState c"
  shows "\<exists>out call. provideInlineCompletionItems_with client s e = Inr out
           \<and> backendCalls out = [call]"
proof -
  from fingerprint_SomeD[OF assms(2)] have v: "line (position e) < lineCount (document e)"
    and l: "lineAt (document e) (line (position e)) = Inr (lines (document e) ! line (position e))"
    and f: "f = \<lparr>inputLine = line (position e), inputCharacter = character (position e),
            inputText = substring (lines (document e) ! line (position e)) 0
                          (int (character (position e)))\<rparr>"
    by simp_all
  have "\<And>i. i \<in> set [windowStart (position e)..<line (position e)] \<Longrightarrow> i < lineCount (document e)"
    using v by simp
  from trimmedLines_total[OF this] obtain ts
    where ts: "trimmedLines (document e) [windowStart (position e)..<line (position e)] = Inr ts"
    by blast
  have st: "shouldTriggerCompletion (s\<lparr>lastInput := Some f\<rparr>) (gateClock e) (document e)
              (position e) (inputText f) = Inr True"
    using assms(5,6) ts by (simp add: shouldTriggerCompletion_def contextAllows_def)
  have "provideInlineCompletionItems_with client s e
        = Inr (requestCompletion client (s\<lparr>lastInput := Some f\<rparr>) e)"
    using assms(1,3,4) l st unfolding f
    by (simp add: provideInlineCompletionItems_with_def Let_def sameAsLastInput_iff)
  moreover have "\<exists>call. backendCalls (requestCompletion client (s\<lparr>lastInput := Some f\<rparr>) e) = [call]"
    using assms(7) by (simp add: requestCompletion_def Let_def split: sum.splits)
  ultimately show ?thesis by auto
qed

text \<open>
  In the provider of the second file the contextual allowances return before the
  rate limit is looked at, so text before the cursor lets the call through at any
  time.
\<close>

lemma part000_allows_whatever_the_time:
  assumes "line p < lineCount d" and "trim linePrefix \<noteq> []"
  shows "shouldTriggerCompletion_part000 lastTrigger now d p linePrefix = Inr True"
proof -
  have "\<And>i. i \<in> set [windowStart p..<line p] \<Longrightarrow> i < lineCount d" using assms(1) by simp
  from trimmedLines_total[OF this] obtain ts
    where "trimmedLines d [windowStart p..<line p] = Inr ts" by blast
  with assms(2) show ?thesis
    by (simp add: shouldTriggerCompletion_part000_def contextAllows_def)
qed

text \<open>
  C5. A trigger that would otherwise be allowed is denied, without a backend call,
  when it comes less than \<open>TRIGGER_DELAY\<close> (1000 ms) after \<^verbatim>\<open>lastTriggerTime\<close>. The
  provider of the second file does not do this: 100 ms after \<^verbatim>\<open>lastTriggerTime\<close>,
  with \<^verbatim>\<open>foo\<close> before the cursor, its \<^verbatim>\<open>shouldTriggerCompletion\<close> allows the call, and
  the provider sends a request to the backend and returns its completion. The
  function of src/services/completion denies the same call.
\<close>

theorem part000_rate_limit_bypassed:
  "shouldTriggerCompletion_part000 5200 5300 exampleDocument \<lparr>line = 0, character = 3\<rparr> ''foo''
     = Inr True
   \<and> provideInlineCompletionItems_part000 5200 secondCall
     = Inr \<lparr>returnedItems = items barList, lastTriggerTimeAfter = 5400,
            completionRequests = [\<lparr>prompt = ''foo'', maxTokens = 50, temperature = 2 / 10,
                                    cursorPosition = 3\<rparr>]\<rparr>
   \<and> shouldTriggerCompletion (initialState\<lparr>lastTriggerTime := 5200\<rparr>) 5300 exampleDocument
        \<lparr>line = 0, character = 3\<rparr> ''foo''
     = Inr False"
  by code_simp

subsection \<open>The string guard\<close>













subsection \<open>The configuration passed by the caller\<close>

lemma getCompletion_request:
  "getCompletion be \<lparr>prompt = p, maxTokens = m, temperature = t, cursorPosition = c,
                      configuration = c1\<rparr>
   = getCompletion be \<lparr>prompt = p, maxTokens = m, temperature = t, cursorPosition = c,
                        configuration = c2\<rparr>"
  by (simp add: getCompletion_def completionStream_def fullPrompt_def promptPrefix_def
        promptSuffix_def contextPrefix_def lastLine_def lastLineBreakIndex_def)

lemma deniedOnEntry_visibleInstance:
  "deniedOnEntry (e\<lparr>visibleInstance := v\<rparr>) = deniedOnEntry e"
  by (simp add: deniedOnEntry_def split: option.splits)

lemma requestCompletion_configuration:
  "returned (requestCompletion getCompletion s (e\<lparr>visibleInstance := VisibleState c1\<rparr>))
     = returned (requestCompletion getCompletion s (e\<lparr>visibleInstance := VisibleState c2\<rparr>))
   \<and> state (requestCompletion getCompletion s (e\<lparr>visibleInstance := VisibleState c1\<rparr>))
     = state (requestCompletion getCompletion s (e\<lparr>visibleInstance := VisibleState c2\<rparr>))
   \<and> map response
         (backendCalls (requestCompletion getCompletion s (e\<lparr>visibleInstance := VisibleState c1\<rparr>)))
     = map response
         (backendCalls (requestCompletion getCompletion s (e\<lparr>visibleInstance := VisibleState c2\<rparr>)))"
proof -
  let ?r1 = "\<lparr>prompt = getText (document e) (getContextRange (document e) (position e)),
               maxTokens = 50, temperature = 2 / 10,
               cursorPosition = int (character (position e)), configuration = c1\<rparr>"
  let ?r2 = "\<lparr>prompt = getText (document e) (getContextRange (document e) (position e)),
               maxTokens = 50, temperature = 2 / 10,
               cursorPosition = int (character (position e)), configuration = c2\<rparr>"
  have g: "getCompletion (backend e) ?r1 = getCompletion (backend e) ?r2"
    by (rule getCompletion_request)
  from g show ?thesis
    by (cases "getCompletion (backend e) ?r2") (simp_all add: requestCompletion_def Let_def)
qed

lemma provider_ignores_configuration:
  "visibleOutcome (provideInlineCompletionItems s (e\<lparr>visibleInstance := VisibleState c1\<rparr>))
   = visibleOutcome (provideInlineCompletionItems s (e\<lparr>visibleInstance := VisibleState c2\<rparr>))"
  using requestCompletion_configuration[where e=e and ?c1.0=c1 and ?c2.0=c2]
  by (simp add: visibleOutcome_def provideInlineCompletionItems_def
        provideInlineCompletionItems_with_def deniedOnEntry_visibleInstance Let_def
      split: sum.splits bool.splits)

text \<open>
  C10. \<^verbatim>\<open>getCompletion\<close> gives the same result for any two configurations it is
  passed. The handler it builds is the Anthropic one, with the model id and the key
  written in the source, and it is that handler the backend is called with. What
  a caller sees of \<^verbatim>\<open>provideInlineCompletionItems\<close> (the value returned, the session
  state, the backend's answers) does not depend on the configuration of the visible
  provider either.
\<close>

theorem configuration_is_ignored:
  "getCompletion be (r\<lparr>configuration := c1\<rparr>) = getCompletion be (r\<lparr>configuration := c2\<rparr>)
   \<and> completionHandler
       = AnthropicHandler \<lparr>apiModelId = Some ''claude-3-5-sonnet-20240620'',
                           apiKey = Some EMBEDDED_API_KEY\<rparr>
   \<and> completionStream be (r\<lparr>configuration := c1\<rparr>)
       = be completionHandler HOLE_FILLER (fullPrompt (r\<lparr>configuration := c2\<rparr>))
   \<and> visibleOutcome (provideInlineCompletionItems s (e\<lparr>visibleInstance := VisibleState c1\<rparr>))
       = visibleOutcome (provideInlineCompletionItems s (e\<lparr>visibleInstance := VisibleState c2\<rparr>))"
proof -
  have a: "getCompletion be (r\<lparr>configuration := c1\<rparr>) = getCompletion be (r\<lparr>configuration := c2\<rparr>)"
    by (simp add: getCompletion_def completionStream_def fullPrompt_def promptPrefix_def
        promptSuffix_def contextPrefix_def lastLine_def lastLineBreakIndex_def)
  have b: "completionHandler
       = AnthropicHandler \<lparr>apiModelId = Some ''claude-3-5-sonnet-20240620'',
                           apiKey = Some EMBEDDED_API_KEY\<rparr>"
    by (simp add: completionHandler_def buildApiHandler_def completionConfiguration_def
          handlerOptions_def)
  have c: "completionStream be (r\<lparr>configuration := c1\<rparr>)
       = be completionHandler HOLE_FILLER (fullPrompt (r\<lparr>configuration := c2\<rparr>))"
    by (simp add: completionStream_def fullPrompt_def promptPrefix_def
        promptSuffix_def contextPrefix_def lastLine_def lastLineBreakIndex_def)
  from a b c provider_ignores_configuration show ?thesis by blast
qed

theorem configuration_is_ignored_witness:
  "getCompletion (answering ''<COMPLETION>bar</COMPLETION>'')
       (exampleRequest\<lparr>configuration := otherConfiguration\<rparr>)
     = Inr [\<lparr>resultText = ''bar'', detail = Some ''AI Completion''\<rparr>]
   \<and> visibleOutcome (provideInlineCompletionItems initialState
        (exampleCall\<lparr>visibleInstance := VisibleState otherConfiguration\<rparr>))
     = Inr (Some barList, stateAfterExample,
            [Inr [\<lparr>resultText = ''bar'', detail = Some ''AI Completion''\<rparr>]])"
proof -
  have g: "getCompletion (answering ''<COMPLETION>bar</COMPLETION>'')
             (exampleRequest\<lparr>configuration := completionConfiguration\<rparr>)
           = Inr [\<lparr>resultText = ''bar'', detail = Some ''AI Completion''\<rparr>]"
    by code_simp
  have v: "exampleCall\<lparr>visibleInstance := VisibleState completionConfiguration\<rparr> = exampleCall"
    by (simp add: exampleCall_def)
  have p: "visibleOutcome (provideInlineCompletionItems initialState exampleCall)
           = Inr (Some barList, stateAfterExample,
            [Inr [\<lparr>resultText = ''bar'', detail = Some ''AI Completion''\<rparr>]])"
    by (simp add: exampleCall_first visibleOutcome_def)
  from configuration_is_ignored
         [where be = "answering ''<COMPLETION>bar</COMPLETION>''" and r = exampleRequest
            and ?c1.0 = otherConfiguration and ?c2.0 = completionConfiguration
            and s = initialState and e = exampleCall]
       g v p
  show ?thesis by simp
qed

end
